theory Spec2Isabelle
  imports Complex_Main
begin

section \<open>Patient monitoring: event detection agents and alert fusion\<close>

text \<open>
  A shallow embedding of the event-detection agents and of the orchestrator of the
  patient monitoring system. Python floats are modelled as reals, Python ints as
  \<open>int\<close> (sizes and capacities as \<open>nat\<close>), \<open>None\<close> as \<open>option\<close>, a raised
  exception as the left injection of a sum.
\<close>

datatype error = IndexError | ZeroDivisionError | AttributeError | ValueError | TypeError

subsection \<open>utils/temporal\_buffer.py\<close>

text \<open>
  \<open>TemporalBuffer\<close> wraps a \<open>collections.deque(maxlen=maxlen)\<close>. Appending to a
  full deque drops the item at the left end; a deque of capacity zero discards what
  is appended.
\<close>

record 'a TemporalBuffer =
  maxlen :: nat
  buffer :: "'a list"

definition TemporalBuffer_init :: "nat \<Rightarrow> 'a TemporalBuffer" where
  "TemporalBuffer_init n = \<lparr>maxlen = n, buffer = []\<rparr>"

definition deque_append :: "nat \<Rightarrow> 'a list \<Rightarrow> 'a \<Rightarrow> 'a list" where
  "deque_append n xs x =
     (if n = 0 then xs
      else if n \<le> length xs then tl xs @ [x]
      else xs @ [x])"

definition add :: "'a TemporalBuffer \<Rightarrow> 'a \<Rightarrow> 'a TemporalBuffer" where
  "add b item = b\<lparr>buffer := deque_append (maxlen b) (buffer b) item\<rparr>"

definition get_latest :: "'a TemporalBuffer \<Rightarrow> 'a option" where
  "get_latest b = (if length (buffer b) > 0 then Some (last (buffer b)) else None)"

definition get_oldest :: "'a TemporalBuffer \<Rightarrow> 'a option" where
  "get_oldest b = (if length (buffer b) > 0 then Some (hd (buffer b)) else None)"

definition get_all :: "'a TemporalBuffer \<Rightarrow> 'a list" where
  "get_all b = buffer b"

text \<open>
  Python's \<open>xs[s:]\<close>: a negative start counts from the end, and a start outside
  the list is clamped to it.
\<close>

definition slice_from :: "int \<Rightarrow> 'a list \<Rightarrow> 'a list" where
  "slice_from s xs =
     (if s < 0 then drop (nat (int (length xs) + s)) xs else drop (nat s) xs)"

definition get_window :: "'a TemporalBuffer \<Rightarrow> int \<Rightarrow> 'a list" where
  "get_window b window_size =
     (if window_size \<ge> int (length (buffer b)) then buffer b
      else slice_from (- window_size) (buffer b))"

definition is_full :: "'a TemporalBuffer \<Rightarrow> bool" where
  "is_full b = (length (buffer b) = maxlen b)"

definition clear :: "'a TemporalBuffer \<Rightarrow> 'a TemporalBuffer" where
  "clear b = b\<lparr>buffer := []\<rparr>"

definition len :: "'a TemporalBuffer \<Rightarrow> nat" where
  "len b = length (buffer b)"

text \<open>Inserting a sequence of items, one \<open>add\<close> call after the other.\<close>

definition add_all :: "'a TemporalBuffer \<Rightarrow> 'a list \<Rightarrow> 'a TemporalBuffer" where
  "add_all b items = foldl add b items"

subsection \<open>schemas.py\<close>

text \<open>
  The dataclasses of the schema. A field whose name is shared by several classes
  carries a short prefix here, since the fields of the records of one theory share
  one name space.
\<close>

record BoundingBox =
  bb_x1 :: real
  bb_y1 :: real
  bb_x2 :: real
  bb_y2 :: real
  bb_confidence :: real

record Keypoint =
  kp_x :: real
  kp_y :: real
  kp_z :: real
  kp_confidence :: real
  visibility :: real

record PoseData =
  keypoints :: "Keypoint list"
  pose_timestamp :: real

record PersonDetection =
  track_id :: int
  bbox :: BoundingBox
  det_confidence :: real
  pose :: "PoseData option"
  face_bbox :: "BoundingBox option"

record FrameMetadata =
  frame_id :: int
  timestamp :: real
  width :: int
  height :: int
  fps :: real
  detections :: "PersonDetection list"

text \<open>
  The event classes: \<open>BaseEvent\<close> holds the common fields, and \<open>details\<close> holds
  what the subclass of the event adds (\<open>NoFields\<close> for a plain \<open>BaseEvent\<close>).
\<close>

record FallDetectionFields =
  fall_type :: string
  fall_bbox :: "BoundingBox option"
  pose_vector :: "real list option"
  torso_angle :: "real option"
  hip_height :: "real option"
  vertical_velocity :: "real option"

record EmotionDetectionFields =
  emotion :: string
  valence :: real
  arousal :: real
  emotion_face_bbox :: "BoundingBox option"
  emotion_probabilities :: "(string \<times> real) list option"

record VitalSignsFields =
  heart_rate :: "real option"
  respiratory_rate :: "real option"
  signal_quality :: real
  hr_confidence :: real
  rr_confidence :: real

record BedExitFields =
  state :: string
  previous_state :: "string option"
  transition :: bool
  duration_in_state :: real
  event_bed_region :: "BoundingBox option"
  person_bbox :: "BoundingBox option"

record ImmobilityFields =
  immobility_duration :: real
  event_last_movement_time :: real
  risk_level :: string
  posture :: "string option"
  movement_magnitude :: real
  event_posture_change_count :: int

record SeizureDetectionFields =
  seizure_detected :: bool
  motion_frequency :: real
  affected_limbs :: "string list"
  duration :: real
  magnitude :: real

datatype subclass_fields =
    NoFields
  | FallDetection FallDetectionFields
  | EmotionDetection EmotionDetectionFields
  | VitalSigns VitalSignsFields
  | BedExit BedExitFields
  | Immobility ImmobilityFields
  | SeizureDetection SeizureDetectionFields

record BaseEvent =
  event_type :: string
  event_timestamp :: real
  confidence :: real
  event_agent_name :: string
  event_frame_id :: int
  details :: subclass_fields

record ConsolidatedAlert =
  alert_id :: string
  level :: string
  message :: string
  alert_timestamp :: real
  events :: "BaseEvent list"
  metadata :: "(string \<times> string) list"

subsection \<open>The outside world\<close>

text \<open>
  \<open>time.time()\<close>, \<open>uuid.uuid4()\<close> and \<open>datetime.now()\<close> read the outside world.
  The model numbers these reads: \<open>world\<close> gives what the n-th read returns, each
  function takes the number of reads made so far and returns the number after it.
  \<open>str_float\<close> is Python's \<open>str\<close> of a float, which an f-string applies.
\<close>

record world =
  clock :: "nat \<Rightarrow> real"
  uuid4 :: "nat \<Rightarrow> string"
  local_hour :: "nat \<Rightarrow> int"
  str_float :: "real \<Rightarrow> string"

definition time_time :: "world \<Rightarrow> nat \<Rightarrow> real \<times> nat" where
  "time_time env w = (clock env w, Suc w)"

text \<open>A frame is an image: rows of pixels, each pixel three channel values.\<close>

type_synonym frame = "(nat \<times> nat \<times> nat) list list"

subsection \<open>core/base\_agent.py\<close>

text \<open>
  The \<open>config\<close> dictionary an agent keeps is read in the constructor only, where each
  threshold is copied into an attribute; the model keeps the attributes.
\<close>

record BaseAgent =
  agent_name :: string
  enabled :: bool
  frame_count :: int

definition enable :: "'a BaseAgent_scheme \<Rightarrow> 'a BaseAgent_scheme" where
  "enable a = a\<lparr>enabled := True\<rparr>"

definition disable :: "'a BaseAgent_scheme \<Rightarrow> 'a BaseAgent_scheme" where
  "disable a = a\<lparr>enabled := False\<rparr>"

subsection \<open>Angles\<close>

text \<open>\<open>np.arctan2(x1, x2)\<close> is the angle of the point \<open>(x2, x1)\<close>, in \<open>(-pi, pi]\<close>.\<close>

definition arctan2 :: "real \<Rightarrow> real \<Rightarrow> real" where
  "arctan2 x1 x2 =
     (if x2 > 0 then arctan (x1 / x2)
      else if x2 < 0 then (if x1 \<ge> 0 then arctan (x1 / x2) + pi else arctan (x1 / x2) - pi)
      else if x1 > 0 then pi / 2
      else if x1 < 0 then - (pi / 2)
      else 0)"

definition degrees :: "real \<Rightarrow> real" where
  "degrees r = r * 180 / pi"

subsection \<open>agents/fall\_detection\_agent.py\<close>

record FallConfig =
  cfg_sequence_length :: "nat option"
  cfg_confidence_threshold :: "real option"
  cfg_fall_angle_threshold :: "real option"
  cfg_hip_height_threshold :: "real option"
  cfg_velocity_threshold :: "real option"

definition FALL_DETECTION_CONFIG :: FallConfig where
  "FALL_DETECTION_CONFIG =
     \<lparr>cfg_sequence_length = Some 30, cfg_confidence_threshold = Some 0.7,
      cfg_fall_angle_threshold = Some 60, cfg_hip_height_threshold = Some 0.3,
      cfg_velocity_threshold = Some 0.5\<rparr>"

definition config_get :: "'a option \<Rightarrow> 'a \<Rightarrow> 'a" where
  "config_get entry dflt = (case entry of None \<Rightarrow> dflt | Some v \<Rightarrow> v)"

record FallSample =
  fs_pose :: PoseData
  fs_timestamp :: real
  fs_bbox :: BoundingBox

record FallDetectionAgent = BaseAgent +
  sequence_length :: nat
  fall_confidence_threshold :: real
  fall_angle_threshold :: real
  hip_height_threshold :: real
  velocity_threshold :: real
  fall_pose_buffer :: "FallSample TemporalBuffer"
  fall_last_event_time :: real
  fall_event_cooldown :: real

definition FallDetectionAgent_init :: "FallConfig \<Rightarrow> FallDetectionAgent" where
  "FallDetectionAgent_init config =
     \<lparr>agent_name = ''fall_detection'', enabled = True, frame_count = 0,
      sequence_length = config_get (cfg_sequence_length config) 30,
      fall_confidence_threshold = config_get (cfg_confidence_threshold config) 0.7,
      fall_angle_threshold = config_get (cfg_fall_angle_threshold config) 60,
      hip_height_threshold = config_get (cfg_hip_height_threshold config) 0.3,
      velocity_threshold = config_get (cfg_velocity_threshold config) 0.5,
      fall_pose_buffer = TemporalBuffer_init (config_get (cfg_sequence_length config) 30),
      fall_last_event_time = 0,
      fall_event_cooldown = 3\<rparr>"

record FallIndicators =
  ind_torso_angle :: real
  ind_hip_height :: real
  ind_vertical_velocity :: real
  is_lying :: bool
  is_falling :: bool
  is_near_fall :: bool
  lying_confidence :: real
  fall_confidence :: real
  near_fall_confidence :: real

text \<open>
  \<open>_compute_vertical_velocity\<close>: the hip keypoints 23 and 24 of the oldest and of the
  newest buffered pose are read; a pose with fewer keypoints raises \<open>IndexError\<close>.
\<close>

definition compute_vertical_velocity :: "FallDetectionAgent \<Rightarrow> error + real" where
  "compute_vertical_velocity a =
     (if len (fall_pose_buffer a) < 2 then Inr 0
      else
        (case (get_oldest (fall_pose_buffer a), get_latest (fall_pose_buffer a)) of
          (Some first_frame, Some last_frame) \<Rightarrow>
            (let first_kps = keypoints (fs_pose first_frame);
                 last_kps = keypoints (fs_pose last_frame)
             in if length first_kps \<le> 24 \<or> length last_kps \<le> 24 then Inl IndexError
                else
                  (let first_hip_y = (kp_y (first_kps ! 23) + kp_y (first_kps ! 24)) / 2;
                       last_hip_y = (kp_y (last_kps ! 23) + kp_y (last_kps ! 24)) / 2;
                       time_diff = fs_timestamp last_frame - fs_timestamp first_frame
                   in if time_diff > 0
                      then Inr (min 1 (\<bar>last_hip_y - first_hip_y\<bar> / time_diff / 100))
                      else Inr 0))
        | _ \<Rightarrow> Inl TypeError))"

text \<open>
  \<open>_analyze_fall_indicators\<close>: keypoints 0, 11, 12, 23, 24, 25 and 26 of the current
  pose are read first (\<open>IndexError\<close> on a shorter pose); the hip height divides by
  the frame height (\<open>ZeroDivisionError\<close> when it is 0).
\<close>

definition analyze_fall_indicators ::
  "FallDetectionAgent \<Rightarrow> PoseData \<Rightarrow> int \<Rightarrow> error + FallIndicators" where
  "analyze_fall_indicators a p frame_height =
     (let kps = keypoints p in
      if length kps \<le> 26 then Inl IndexError
      else
        (let left_shoulder = kps ! 11; right_shoulder = kps ! 12;
             left_hip = kps ! 23; right_hip = kps ! 24;
             mid_shoulder_y = (kp_y left_shoulder + kp_y right_shoulder) / 2;
             mid_hip_y = (kp_y left_hip + kp_y right_hip) / 2;
             mid_shoulder_x = (kp_x left_shoulder + kp_x right_shoulder) / 2;
             mid_hip_x = (kp_x left_hip + kp_x right_hip) / 2;
             angle = \<bar>degrees (arctan2 (mid_shoulder_x - mid_hip_x) (mid_shoulder_y - mid_hip_y))\<bar>
         in if frame_height = 0 then Inl ZeroDivisionError
            else
              (let hh = 1 - mid_hip_y / real_of_int frame_height in
               case compute_vertical_velocity a of
                 Inl e \<Rightarrow> Inl e
               | Inr vv \<Rightarrow>
                   Inr \<lparr>ind_torso_angle = angle,
                        ind_hip_height = hh,
                        ind_vertical_velocity = vv,
                        is_lying = (hh < hip_height_threshold a \<and> angle > fall_angle_threshold a),
                        is_falling = (vv > velocity_threshold a \<and> angle > fall_angle_threshold a / 2),
                        is_near_fall =
                          (vv > velocity_threshold a * 0.7 \<and> angle > fall_angle_threshold a * 0.7),
                        lying_confidence = min 1 ((1 - hh) * (angle / 90)),
                        fall_confidence = min 1 (vv * (angle / 90)),
                        near_fall_confidence = min 1 (vv * 0.8)\<rparr>)))"

definition get_pose_vector :: "PoseData \<Rightarrow> real list" where
  "get_pose_vector p = concat (map (\<lambda>k. [kp_x k, kp_y k, kp_z k]) (keypoints p))"

definition fall_event ::
  "FallDetectionAgent \<Rightarrow> FrameMetadata \<Rightarrow> PersonDetection \<Rightarrow> PoseData \<Rightarrow> FallIndicators \<Rightarrow>
   string \<Rightarrow> real \<Rightarrow> BaseEvent" where
  "fall_event a md detection p ind ft conf =
     \<lparr>event_type = ''fall_detection'', event_timestamp = timestamp md, confidence = conf,
      event_agent_name = agent_name a, event_frame_id = frame_id md,
      details = FallDetection
        \<lparr>fall_type = ft, fall_bbox = Some (bbox detection),
         pose_vector = Some (get_pose_vector p),
         torso_angle = Some (ind_torso_angle ind),
         hip_height = Some (ind_hip_height ind),
         vertical_velocity = Some (ind_vertical_velocity ind)\<rparr>\<rparr>"

definition FallDetectionAgent_detect ::
  "world \<Rightarrow> FallDetectionAgent \<Rightarrow> nat \<Rightarrow> frame \<Rightarrow> FrameMetadata \<Rightarrow>
   error + (BaseEvent option \<times> FallDetectionAgent \<times> nat)" where
  "FallDetectionAgent_detect env a w fr md =
     (if \<not> enabled a then Inr (None, a, w)
      else
        (let a1 = a\<lparr>frame_count := frame_count a + 1\<rparr> in
         case detections md of
           [] \<Rightarrow> Inr (None, a1, w)
         | detection # _ \<Rightarrow>
             (case pose detection of
               None \<Rightarrow> Inr (None, a1, w)
             | Some p \<Rightarrow>
                 (let a2 = a1\<lparr>fall_pose_buffer :=
                            add (fall_pose_buffer a1)
                              \<lparr>fs_pose = p, fs_timestamp = timestamp md,
                               fs_bbox = bbox detection\<rparr>\<rparr>
                  in if len (fall_pose_buffer a2) < sequence_length a2 then Inr (None, a2, w)
                     else
                       (case time_time env w of
                         (now, w1) \<Rightarrow>
                           if now - fall_last_event_time a2 < fall_event_cooldown a2
                           then Inr (None, a2, w1)
                           else
                             (case analyze_fall_indicators a2 p (height md) of
                               Inl e \<Rightarrow> Inl e
                             | Inr ind \<Rightarrow>
                                 (case (if is_lying ind then (Some ''lying'', lying_confidence ind)
                                        else if is_falling ind then (Some ''fall'', fall_confidence ind)
                                        else if is_near_fall ind
                                        then (Some ''near_fall'', near_fall_confidence ind)
                                        else (None, 0)) of
                                   (Some ft, conf) \<Rightarrow>
                                     if conf > fall_confidence_threshold a2
                                     then
                                       (case time_time env w1 of
                                         (t, w2) \<Rightarrow>
                                           Inr (Some (fall_event a2 md detection p ind ft conf),
                                                a2\<lparr>fall_last_event_time := t\<rparr>, w2))
                                     else Inr (None, a2, w1)
                                 | (None, conf) \<Rightarrow> Inr (None, a2, w1))))))))"

subsection \<open>Fall agent: the claimed classification and a concrete frame\<close>

definition claimed_fall_classification ::
  "FallDetectionAgent \<Rightarrow> real \<Rightarrow> real \<Rightarrow> real \<Rightarrow> (string \<times> real) option" where
  "claimed_fall_classification a hh angle vv =
     (if hh < hip_height_threshold a \<and> angle > fall_angle_threshold a
      then Some (''lying'', min 1 ((1 - hh) * (angle / 90)))
      else if vv > velocity_threshold a \<and> angle > fall_angle_threshold a / 2
      then Some (''fall'', min 1 (vv * (angle / 90)))
      else if vv > 0.7 * velocity_threshold a \<and> angle > 0.7 * fall_angle_threshold a
      then Some (''near_fall'', min 1 (vv * 0.8))
      else None)"

definition fall_buffered :: "FallDetectionAgent \<Rightarrow> FrameMetadata \<Rightarrow> PersonDetection \<Rightarrow> PoseData \<Rightarrow> FallDetectionAgent" where
  "fall_buffered a md detection p =
     a\<lparr>frame_count := frame_count a + 1,
       fall_pose_buffer := add (fall_pose_buffer a)
          \<lparr>fs_pose = p, fs_timestamp = timestamp md, fs_bbox = bbox detection\<rparr>\<rparr>"

definition ex_world :: world where
  "ex_world = \<lparr>clock = (\<lambda>n. 1001), uuid4 = (\<lambda>n. ''id''), local_hour = (\<lambda>n. 12),
     str_float = (\<lambda>r. ''?'')\<rparr>"

definition ex_kp :: "real \<Rightarrow> real \<Rightarrow> real \<Rightarrow> Keypoint" where
  "ex_kp px py vis = \<lparr>kp_x = px, kp_y = py, kp_z = 0, kp_confidence = vis, visibility = vis\<rparr>"

definition ex_lying_pose :: "real \<Rightarrow> PoseData" where
  "ex_lying_pose t =
     \<lparr>keypoints = replicate 11 (ex_kp 100 650 1) @ [ex_kp 300 650 1, ex_kp 300 650 1]
                    @ replicate 20 (ex_kp 100 650 1),
      pose_timestamp = t\<rparr>"

definition ex_bbox :: BoundingBox where
  "ex_bbox = \<lparr>bb_x1 = 50, bb_y1 = 600, bb_x2 = 350, bb_y2 = 700, bb_confidence = 0.9\<rparr>"

definition ex_lying_detection :: "real \<Rightarrow> PersonDetection" where
  "ex_lying_detection t =
     \<lparr>track_id = 1, bbox = ex_bbox, det_confidence = 0.9, pose = Some (ex_lying_pose t),
      face_bbox = None\<rparr>"

definition ex_lying_md :: FrameMetadata where
  "ex_lying_md = \<lparr>frame_id = 30, timestamp = 1001, width = 1280, height = 720, fps = 30,
     detections = [ex_lying_detection 1001]\<rparr>"

definition ex_fall_agent :: FallDetectionAgent where
  "ex_fall_agent = (FallDetectionAgent_init FALL_DETECTION_CONFIG)
     \<lparr>frame_count := 29,
      fall_pose_buffer := \<lparr>maxlen = 30, buffer = replicate 29
         \<lparr>fs_pose = ex_lying_pose 1000, fs_timestamp = 1000, fs_bbox = ex_bbox\<rparr>\<rparr>\<rparr>"

definition ex_lying_indicators :: FallIndicators where
  "ex_lying_indicators =
     \<lparr>ind_torso_angle = 90, ind_hip_height = 7 / 72, ind_vertical_velocity = 0,
      is_lying = True, is_falling = False, is_near_fall = False,
      lying_confidence = 65 / 72, fall_confidence = 0, near_fall_confidence = 0\<rparr>"

subsection \<open>agents/seizure\_detection\_agent.py\<close>

record SeizureConfig =
  cfg_frequency_range :: "(real \<times> real) option"
  cfg_magnitude_threshold :: "real option"
  cfg_duration_threshold :: "real option"
  cfg_seizure_confidence_threshold :: "real option"
  cfg_affected_limbs_min :: "int option"

definition SEIZURE_DETECTION_CONFIG :: SeizureConfig where
  "SEIZURE_DETECTION_CONFIG =
     \<lparr>cfg_frequency_range = Some (3, 10), cfg_magnitude_threshold = Some 0.3,
      cfg_duration_threshold = Some 5, cfg_seizure_confidence_threshold = Some 0.75,
      cfg_affected_limbs_min = Some 2\<rparr>"

record SeizureSample =
  ss_pose :: PoseData
  ss_timestamp :: real

record SeizureDetectionAgent = BaseAgent +
  frequency_range :: "real \<times> real"
  magnitude_threshold :: real
  duration_threshold :: real
  seizure_confidence_threshold :: real
  affected_limbs_min :: int
  buffer_size :: nat
  seizure_pose_buffer :: "SeizureSample TemporalBuffer"
  seizure_start_time :: "real option"
  seizure_last_event_time :: real
  seizure_event_cooldown :: real

definition SeizureDetectionAgent_init :: "SeizureConfig \<Rightarrow> SeizureDetectionAgent" where
  "SeizureDetectionAgent_init config =
     \<lparr>agent_name = ''seizure_detection'', enabled = True, frame_count = 0,
      frequency_range = config_get (cfg_frequency_range config) (3, 10),
      magnitude_threshold = config_get (cfg_magnitude_threshold config) 0.3,
      duration_threshold = config_get (cfg_duration_threshold config) 5,
      seizure_confidence_threshold = config_get (cfg_seizure_confidence_threshold config) 0.75,
      affected_limbs_min = config_get (cfg_affected_limbs_min config) 2,
      buffer_size = 150,
      seizure_pose_buffer = TemporalBuffer_init 150,
      seizure_start_time = None,
      seizure_last_event_time = 0,
      seizure_event_cooldown = 10\<rparr>"

text \<open>
  \<open>_extract_trajectories\<close>. For one frame, \<open>positions\<close> holds the \<open>[x, y]\<close> of those
  keypoints of the limb that exist in the pose and whose visibility is above 0.5;
  \<open>np.mean(positions, axis=0)\<close> is their mean. A frame with no such keypoint makes
  the function return \<open>None\<close>.
\<close>

definition visible_positions :: "PoseData \<Rightarrow> nat list \<Rightarrow> (real \<times> real) list" where
  "visible_positions p keypoint_indices =
     map (\<lambda>idx. (kp_x (keypoints p ! idx), kp_y (keypoints p ! idx)))
       (filter (\<lambda>idx. idx < length (keypoints p) \<and> visibility (keypoints p ! idx) > 0.5)
          keypoint_indices)"

definition np_mean_axis0 :: "(real \<times> real) list \<Rightarrow> real \<times> real" where
  "np_mean_axis0 ps =
     (sum_list (map fst ps) / real (length ps), sum_list (map snd ps) / real (length ps))"

fun extract_frames :: "SeizureSample list \<Rightarrow> nat list \<Rightarrow> (real \<times> real) list option" where
  "extract_frames [] keypoint_indices = Some []"
| "extract_frames (frame_data # rest) keypoint_indices =
     (let positions = visible_positions (ss_pose frame_data) keypoint_indices in
      if positions \<noteq> []
      then (case extract_frames rest keypoint_indices of
              None \<Rightarrow> None
            | Some trajectories \<Rightarrow> Some (np_mean_axis0 positions # trajectories))
      else None)"

definition extract_trajectories ::
  "SeizureDetectionAgent \<Rightarrow> nat list \<Rightarrow> (real \<times> real) list option" where
  "extract_trajectories a keypoint_indices =
     (case extract_frames (buffer (seizure_pose_buffer a)) keypoint_indices of
        None \<Rightarrow> None
      | Some trajectories \<Rightarrow>
          if length trajectories < buffer_size a then None else Some trajectories)"

text \<open>
  \<open>_fft_analysis\<close>. \<open>np.fft.fft\<close> is the discrete Fourier transform,
  \<open>np.fft.fftfreq(n, d)\<close> the frequency of each bin (the bins above \<open>(n-1) div 2\<close>
  are the negative frequencies), \<open>np.argmax\<close> the first position of the maximum.
  The transform of an empty array raises \<open>ValueError\<close>.
\<close>

definition np_diff :: "(real \<times> real) list \<Rightarrow> (real \<times> real) list" where
  "np_diff ps = map (\<lambda>(p, q). (fst q - fst p, snd q - snd p)) (zip ps (tl ps))"

definition np_linalg_norm :: "real \<times> real \<Rightarrow> real" where
  "np_linalg_norm v = sqrt ((fst v)\<^sup>2 + (snd v)\<^sup>2)"

definition np_fft :: "real list \<Rightarrow> nat \<Rightarrow> complex" where
  "np_fft v k =
     (\<Sum>n<length v. complex_of_real (v ! n) *
        cis (- (2 * pi * real k * real n / real (length v))))"

definition np_fftfreq :: "nat \<Rightarrow> real \<Rightarrow> nat \<Rightarrow> real" where
  "np_fftfreq n d k =
     (if k \<le> (n - 1) div 2 then real k else real k - real n) / (d * real n)"

fun argmax_from :: "('a \<Rightarrow> real) \<Rightarrow> 'a \<Rightarrow> 'a list \<Rightarrow> 'a" where
  "argmax_from f best [] = best"
| "argmax_from f best (x # xs) = argmax_from f (if f x > f best then x else best) xs"

definition np_argmax :: "('a \<Rightarrow> real) \<Rightarrow> 'a list \<Rightarrow> 'a" where
  "np_argmax f xs = argmax_from f (hd xs) (tl xs)"

record FFTResult =
  is_seizure_pattern :: bool
  fft_frequency :: real
  fft_magnitude :: real

definition fft_analysis ::
  "SeizureDetectionAgent \<Rightarrow> (real \<times> real) list \<Rightarrow> error + FFTResult" where
  "fft_analysis a trajectories =
     (let velocity = np_diff trajectories;
          velocity_magnitude = map np_linalg_norm velocity;
          n = length velocity_magnitude
      in if n = 0 then Inl ValueError
         else
           (let positive_freq_idx = filter (\<lambda>k. np_fftfreq n (1 / 30) k > 0) [0..<n];
                seizure_range =
                  filter (\<lambda>k. np_fftfreq n (1 / 30) k \<ge> fst (frequency_range a)
                            \<and> np_fftfreq n (1 / 30) k \<le> snd (frequency_range a))
                    positive_freq_idx
            in if seizure_range = []
               then Inr \<lparr>is_seizure_pattern = False, fft_frequency = 0, fft_magnitude = 0\<rparr>
               else
                 (let max_idx = np_argmax (\<lambda>k. cmod (np_fft velocity_magnitude k)) seizure_range;
                      dominant_freq = np_fftfreq n (1 / 30) max_idx;
                      max_magnitude = cmod (np_fft velocity_magnitude max_idx);
                      normalized_magnitude = max_magnitude / (real n / 2)
                  in Inr \<lparr>is_seizure_pattern = (normalized_magnitude > magnitude_threshold a),
                          fft_frequency = dominant_freq,
                          fft_magnitude = normalized_magnitude\<rparr>)))"

text \<open>
  \<open>_analyze_limb_movements\<close>: the loop over the four limbs, in the order of the
  dictionary, with its three accumulators. A limb without trajectories is skipped.
\<close>

definition limbs :: "(string \<times> nat list) list" where
  "limbs = [(''left_arm'', [11, 13, 15]), (''right_arm'', [12, 14, 16]),
            (''left_leg'', [23, 25, 27]), (''right_leg'', [24, 26, 28])]"

fun limb_loop ::
  "SeizureDetectionAgent \<Rightarrow> (string \<times> nat list) list \<Rightarrow> string list \<times> real \<times> real \<Rightarrow>
   error + (string list \<times> real \<times> real)" where
  "limb_loop a [] acc = Inr acc"
| "limb_loop a ((limb_name, keypoint_indices) # rest) (affected, max_magnitude, dominant_frequency) =
     (case extract_trajectories a keypoint_indices of
        None \<Rightarrow> limb_loop a rest (affected, max_magnitude, dominant_frequency)
      | Some trajectories \<Rightarrow>
          (case fft_analysis a trajectories of
             Inl e \<Rightarrow> Inl e
           | Inr fft_result \<Rightarrow>
               if is_seizure_pattern fft_result
               then limb_loop a rest
                      (affected @ [limb_name],
                       max max_magnitude (fft_magnitude fft_result),
                       max dominant_frequency (fft_frequency fft_result))
               else limb_loop a rest (affected, max_magnitude, dominant_frequency)))"

record SeizureIndicators =
  si_seizure_detected :: bool
  si_affected_limbs :: "string list"
  si_magnitude :: real
  si_dominant_frequency :: real
  si_confidence :: real

text \<open>
  The confidence divides by the magnitude threshold. With a threshold of 0 the
  division raises \<open>ZeroDivisionError\<close> when no limb is affected (both operands are
  Python numbers); with an affected limb the numerator is a numpy float, the quotient
  is infinite and the minimum with 1.0 is 1.0.
\<close>

definition analyze_limb_movements :: "SeizureDetectionAgent \<Rightarrow> error + SeizureIndicators" where
  "analyze_limb_movements a =
     (case limb_loop a limbs ([], 0, 0) of
        Inl e \<Rightarrow> Inl e
      | Inr (affected, max_magnitude, dominant_frequency) \<Rightarrow>
          if magnitude_threshold a = 0 \<and> affected = [] then Inl ZeroDivisionError
          else
            Inr \<lparr>si_seizure_detected = (int (length affected) \<ge> affected_limbs_min a),
                 si_affected_limbs = affected,
                 si_magnitude = max_magnitude,
                 si_dominant_frequency = dominant_frequency,
                 si_confidence =
                   (if magnitude_threshold a = 0 then 1
                    else min 1 ((real (length affected) / 4)
                                  * (max_magnitude / magnitude_threshold a)))\<rparr>)"

definition seizure_event ::
  "SeizureDetectionAgent \<Rightarrow> FrameMetadata \<Rightarrow> SeizureIndicators \<Rightarrow> real \<Rightarrow> BaseEvent" where
  "seizure_event a md si dur =
     \<lparr>event_type = ''seizure_detection'', event_timestamp = timestamp md,
      confidence = si_confidence si, event_agent_name = agent_name a,
      event_frame_id = frame_id md,
      details = SeizureDetection
        \<lparr>seizure_detected = True, motion_frequency = si_dominant_frequency si,
         affected_limbs = si_affected_limbs si, duration = dur,
         magnitude = si_magnitude si\<rparr>\<rparr>"

definition SeizureDetectionAgent_detect ::
  "world \<Rightarrow> SeizureDetectionAgent \<Rightarrow> nat \<Rightarrow> frame \<Rightarrow> FrameMetadata \<Rightarrow>
   error + (BaseEvent option \<times> SeizureDetectionAgent \<times> nat)" where
  "SeizureDetectionAgent_detect env a w fr md =
     (if \<not> enabled a then Inr (None, a, w)
      else
        (let a1 = a\<lparr>frame_count := frame_count a + 1\<rparr> in
         case detections md of
           [] \<Rightarrow> Inr (None, a1, w)
         | detection # _ \<Rightarrow>
             (case pose detection of
               None \<Rightarrow> Inr (None, a1, w)
             | Some p \<Rightarrow>
                 (let a2 = a1\<lparr>seizure_pose_buffer :=
                            add (seizure_pose_buffer a1)
                              \<lparr>ss_pose = p, ss_timestamp = timestamp md\<rparr>\<rparr>
                  in if len (seizure_pose_buffer a2) < buffer_size a2 then Inr (None, a2, w)
                     else
                       (case time_time env w of
                         (now, w1) \<Rightarrow>
                           if now - seizure_last_event_time a2 < seizure_event_cooldown a2
                           then Inr (None, a2, w1)
                           else
                             (case analyze_limb_movements a2 of
                               Inl e \<Rightarrow> Inl e
                             | Inr seizure_indicators \<Rightarrow>
                                 if si_seizure_detected seizure_indicators
                                 then
                                   (case (case seizure_start_time a2 of
                                            None \<Rightarrow> time_time env w1
                                          | Some s \<Rightarrow> (s, w1)) of
                                     (start, w2) \<Rightarrow>
                                       (let a3 = a2\<lparr>seizure_start_time := Some start\<rparr> in
                                        case time_time env w2 of
                                          (t, w3) \<Rightarrow>
                                            if t - start > duration_threshold a3
                                            then
                                              (case time_time env w3 of
                                                (t', w4) \<Rightarrow>
                                                  Inr (Some (seizure_event a3 md seizure_indicators
                                                               (t - start)),
                                                       a3\<lparr>seizure_last_event_time := t'\<rparr>, w4))
                                            else Inr (None, a3, w3)))
                                 else Inr (None, a2\<lparr>seizure_start_time := None\<rparr>, w1)))))))"

fun seizure_run ::
  "world \<Rightarrow> SeizureDetectionAgent \<Rightarrow> nat \<Rightarrow> FrameMetadata list \<Rightarrow>
   error + (BaseEvent option list \<times> SeizureDetectionAgent \<times> nat)" where
  "seizure_run env a w [] = Inr ([], a, w)"
| "seizure_run env a w (md # mds) =
     (case SeizureDetectionAgent_detect env a w [] md of
        Inl e \<Rightarrow> Inl e
      | Inr (out, a', w') \<Rightarrow>
          (case seizure_run env a' w' mds of
             Inl e \<Rightarrow> Inl e
           | Inr (outs, a'', w'') \<Rightarrow> Inr (out # outs, a'', w'')))"

subsection \<open>Seizure agent: what a detect call evaluates, and a concrete run\<close>

definition seizure_buffered :: "SeizureDetectionAgent \<Rightarrow> FrameMetadata \<Rightarrow> PoseData \<Rightarrow> SeizureDetectionAgent" where
  "seizure_buffered a md p =
     a\<lparr>frame_count := frame_count a + 1,
       seizure_pose_buffer := add (seizure_pose_buffer a) \<lparr>ss_pose = p, ss_timestamp = timestamp md\<rparr>\<rparr>"

text \<open>The pose a frame hands to the agent: that of its first detection.\<close>

definition first_pose :: "FrameMetadata \<Rightarrow> PoseData option" where
  "first_pose md = (case detections md of [] \<Rightarrow> None | detection # _ \<Rightarrow> pose detection)"

text \<open>
  Whether a detect call evaluates the per-frame seizure condition: the agent is
  enabled, the frame has a pose, the window is full after the pose was added and the
  cooldown since the last event has elapsed.
\<close>

definition evaluates_condition :: "world \<Rightarrow> SeizureDetectionAgent \<Rightarrow> nat \<Rightarrow> FrameMetadata \<Rightarrow> bool" where
  "evaluates_condition env a w md =
     (enabled a \<and>
      (case first_pose md of
         None \<Rightarrow> False
       | Some p \<Rightarrow>
           \<not> len (seizure_pose_buffer (seizure_buffered a md p)) < buffer_size a
           \<and> \<not> clock env w - seizure_last_event_time a < seizure_event_cooldown a))"

text \<open>The per-frame seizure condition on the window the agent holds.\<close>

definition seizure_condition :: "SeizureDetectionAgent \<Rightarrow> bool" where
  "seizure_condition a =
     (case analyze_limb_movements a of Inl e \<Rightarrow> False | Inr si \<Rightarrow> si_seizure_detected si)"

text \<open>
  A pose whose 33 keypoints all sit at the same point, fully visible; a person who
  holds still at \<open>px\<close> and is then displaced as a whole.
\<close>

definition ex_pose_at :: "real \<Rightarrow> PoseData" where
  "ex_pose_at px = \<lparr>keypoints = replicate 33 (ex_kp px 300 1), pose_timestamp = 0\<rparr>"

text \<open>The speed series of a limb that rests, jumps once and rests again.\<close>

definition jump_track :: "nat \<Rightarrow> nat \<Rightarrow> real \<Rightarrow> real \<Rightarrow> (real \<times> real) list" where
  "jump_track m n x0 x1 = map (\<lambda>px. (px, 300)) (replicate m x0 @ replicate n x1)"

definition seizure_band :: "(real \<times> real) \<Rightarrow> nat \<Rightarrow> nat list" where
  "seizure_band rng n =
     filter (\<lambda>k. np_fftfreq n (1 / 30) k \<ge> fst rng \<and> np_fftfreq n (1 / 30) k \<le> snd rng)
       (filter (\<lambda>k. np_fftfreq n (1 / 30) k > 0) [0..<n])"

text \<open>An agent with the default seizure thresholds, whatever its window holds.\<close>

definition default_tuned :: "SeizureDetectionAgent \<Rightarrow> bool" where
  "default_tuned a =
     (frequency_range a = (3, 10) \<and> magnitude_threshold a = 0.3 \<and> buffer_size a = 150
      \<and> affected_limbs_min a = 2 \<and> duration_threshold a = 5
      \<and> seizure_event_cooldown a = 10 \<and> maxlen (seizure_pose_buffer a) = 150)"

text \<open>The agent after a run of frames on none of which the condition was evaluated.\<close>

fun absorb :: "SeizureDetectionAgent \<Rightarrow> FrameMetadata list \<Rightarrow> SeizureDetectionAgent" where
  "absorb a [] = a"
| "absorb a (md # mds) = absorb (seizure_buffered a md (the (first_pose md))) mds"

definition poses_held :: "SeizureDetectionAgent \<Rightarrow> PoseData list" where
  "poses_held a = map ss_pose (buffer (seizure_pose_buffer a))"

text \<open>
  A concrete run of the agent with its default configuration, from its initial state.
  149 frames of a person at rest; a frame in which the person is 30 pixels further
  right (wall clock 1000); one more such frame six seconds later (1006), on which an
  event is returned; 148 more frames of the person at rest in the new place, all
  within the cooldown (1010 to 1015), after which the window holds 150 equal poses;
  and a last frame at 1017 in which the person is back at the first place.
\<close>

definition ex_seizure_frame :: "int \<Rightarrow> real \<Rightarrow> real \<Rightarrow> FrameMetadata" where
  "ex_seizure_frame i t px =
     \<lparr>frame_id = i, timestamp = t, width = 1280, height = 720, fps = 30,
      detections = [\<lparr>track_id = 1, bbox = ex_bbox, det_confidence = 0.9,
                     pose = Some (ex_pose_at px), face_bbox = None\<rparr>]\<rparr>"

definition ex_seizure_world :: world where
  "ex_seizure_world =
     \<lparr>clock = (\<lambda>n. if n < 3 then 1000 else if n < 6 then 1006
                    else if n < 154 then 1010 + (real n - 6) / 30 else 1017),
      uuid4 = (\<lambda>n. ''id''), local_hour = (\<lambda>n. 12), str_float = (\<lambda>r. ''?'')\<rparr>"

definition ex_resting :: "FrameMetadata list" where
  "ex_resting = map (\<lambda>i. ex_seizure_frame (int i) (995 + real i / 30) 0) [0..<149]"

definition ex_jerk :: FrameMetadata where
  "ex_jerk = ex_seizure_frame 149 1000 30"

definition ex_held :: FrameMetadata where
  "ex_held = ex_seizure_frame 150 1006 30"

definition ex_settled :: "FrameMetadata list" where
  "ex_settled = map (\<lambda>i. ex_seizure_frame (151 + int i) (1010 + real i / 30) 30) [0..<148]"

definition ex_return :: FrameMetadata where
  "ex_return = ex_seizure_frame 299 1017 0"

definition ex_seizure_init :: SeizureDetectionAgent where
  "ex_seizure_init = SeizureDetectionAgent_init SEIZURE_DETECTION_CONFIG"

definition ex_after_resting :: SeizureDetectionAgent where
  "ex_after_resting = absorb ex_seizure_init ex_resting"

definition ex_after_jerk :: SeizureDetectionAgent where
  "ex_after_jerk =
     (seizure_buffered ex_after_resting ex_jerk (ex_pose_at 30))\<lparr>seizure_start_time := Some 1000\<rparr>"

definition ex_after_held :: SeizureDetectionAgent where
  "ex_after_held =
     (seizure_buffered ex_after_jerk ex_held (ex_pose_at 30))
       \<lparr>seizure_start_time := Some 1000, seizure_last_event_time := 1006\<rparr>"

definition ex_after_settled :: SeizureDetectionAgent where
  "ex_after_settled = absorb ex_after_held ex_settled"

definition condition_after ::
  "world \<Rightarrow> SeizureDetectionAgent \<Rightarrow> nat \<Rightarrow> FrameMetadata list \<Rightarrow> bool" where
  "condition_after env a w mds =
     (case seizure_run env a w mds of
        Inl e \<Rightarrow> False
      | Inr (outs, a', w') \<Rightarrow> seizure_condition a')"

definition event_at_last ::
  "world \<Rightarrow> SeizureDetectionAgent \<Rightarrow> nat \<Rightarrow> FrameMetadata list \<Rightarrow> bool" where
  "event_at_last env a w mds =
     (case seizure_run env a w mds of
        Inl e \<Rightarrow> False
      | Inr (outs, a', w') \<Rightarrow> outs \<noteq> [] \<and> last outs \<noteq> None)"

text \<open>
  The claim as it is worded, on a run of frames: when the last frame of the run
  returns an event, the per-frame condition held on every frame from some frame
  \<open>j\<close> on, and the last frame is more than the duration threshold later than
  frame \<open>j\<close>.
\<close>

definition claimed_seizure_persistence ::
  "world \<Rightarrow> SeizureDetectionAgent \<Rightarrow> nat \<Rightarrow> FrameMetadata list \<Rightarrow> bool" where
  "claimed_seizure_persistence env a w mds =
     (event_at_last env a w mds \<longrightarrow>
        (\<exists>j<length mds.
           (\<forall>m. j \<le> m \<and> m < length mds \<longrightarrow> condition_after env a w (take (Suc m) mds))
           \<and> timestamp (last mds) - timestamp (mds ! j) > duration_threshold a))"

definition episode_start :: "world \<Rightarrow> SeizureDetectionAgent \<Rightarrow> nat \<Rightarrow> real" where
  "episode_start env a w =
     (case seizure_start_time a of None \<Rightarrow> clock env (Suc w) | Some s \<Rightarrow> s)"

definition duration_read :: "SeizureDetectionAgent \<Rightarrow> nat \<Rightarrow> nat" where
  "duration_read a w = (case seizure_start_time a of None \<Rightarrow> Suc (Suc w) | Some s \<Rightarrow> Suc w)"

definition ex_prelude :: "FrameMetadata list" where
  "ex_prelude = ex_resting @ [ex_jerk, ex_held] @ ex_settled"

text \<open>
  The trajectories as the claim words them: the mean of the limb's three keypoints
  in every frame, and no trajectories at all once a keypoint of the limb has a
  visibility below 0.5 in some frame of the window.
\<close>

definition claimed_limb_trajectories ::
  "SeizureSample list \<Rightarrow> nat list \<Rightarrow> (real \<times> real) list option" where
  "claimed_limb_trajectories buf keypoint_indices =
     (if \<exists>s\<in>set buf. \<exists>idx\<in>set keypoint_indices. visibility (keypoints (ss_pose s) ! idx) < 0.5
      then None
      else Some (map (\<lambda>s. np_mean_axis0
                    (map (\<lambda>idx. (kp_x (keypoints (ss_pose s) ! idx), kp_y (keypoints (ss_pose s) ! idx)))
                       keypoint_indices)) buf))"

text \<open>
  A window of 150 frames in which the left shoulder (keypoint 11) is occluded
  (visibility 0.4) while elbow and wrist are seen, and one in which the whole body is
  occluded.
\<close>

definition ex_occluded_pose :: PoseData where
  "ex_occluded_pose =
     \<lparr>keypoints = replicate 11 (ex_kp 0 0 1) @ [ex_kp 0 0 0.4, ex_kp 0 0 1, ex_kp 30 300 1,
                    ex_kp 0 0 1, ex_kp 60 300 1] @ replicate 17 (ex_kp 0 0 1),
      pose_timestamp = 0\<rparr>"

definition ex_hidden_pose :: PoseData where
  "ex_hidden_pose = \<lparr>keypoints = replicate 33 (ex_kp 0 0 0.4), pose_timestamp = 0\<rparr>"

definition ex_window :: "PoseData \<Rightarrow> SeizureSample list" where
  "ex_window p = map (\<lambda>i. \<lparr>ss_pose = p, ss_timestamp = 1000 + real i / 30\<rparr>) [0..<150]"

definition ex_watching :: "PoseData \<Rightarrow> SeizureDetectionAgent" where
  "ex_watching p =
     (SeizureDetectionAgent_init SEIZURE_DETECTION_CONFIG)
       \<lparr>frame_count := 150, seizure_pose_buffer := \<lparr>maxlen = 150, buffer = ex_window p\<rparr>\<rparr>"

subsection \<open>utils/geometry.py\<close>

definition compute_iou :: "BoundingBox \<Rightarrow> BoundingBox \<Rightarrow> real" where
  "compute_iou bbox1 bbox2 =
     (let ix1 = max (bb_x1 bbox1) (bb_x1 bbox2);
          iy1 = max (bb_y1 bbox1) (bb_y1 bbox2);
          ix2 = min (bb_x2 bbox1) (bb_x2 bbox2);
          iy2 = min (bb_y2 bbox1) (bb_y2 bbox2);
          intersection = max 0 (ix2 - ix1) * max 0 (iy2 - iy1);
          area1 = (bb_x2 bbox1 - bb_x1 bbox1) * (bb_y2 bbox1 - bb_y1 bbox1);
          area2 = (bb_x2 bbox2 - bb_x1 bbox2) * (bb_y2 bbox2 - bb_y1 bbox2);
          union = area1 + area2 - intersection
      in if union > 0 then intersection / union else 0)"

subsection \<open>agents/bed\_exit\_agent.py\<close>

record BedExitConfig =
  cfg_bed_region :: "BoundingBox option"
  cfg_states :: "string list option"
  cfg_transition_confidence :: "real option"
  cfg_sitting_angle_threshold :: "real option"
  cfg_standing_height_threshold :: "real option"
  cfg_alert_on_states :: "string list option"

definition BED_EXIT_CONFIG :: BedExitConfig where
  "BED_EXIT_CONFIG =
     \<lparr>cfg_bed_region = None,
      cfg_states = Some [''IN_BED'', ''SITTING_UP'', ''STANDING'', ''OUT_OF_BED''],
      cfg_transition_confidence = Some 0.7,
      cfg_sitting_angle_threshold = Some 45,
      cfg_standing_height_threshold = Some 0.6,
      cfg_alert_on_states = Some [''STANDING'', ''OUT_OF_BED'']\<rparr>"

record BedExitAgent = BaseAgent +
  bed_region :: "BoundingBox option"
  states :: "string list"
  transition_confidence :: real
  sitting_angle_threshold :: real
  standing_height_threshold :: real
  alert_on_states :: "string list"
  current_state :: string
  state_start_time :: real
  last_transition_time :: real
  calibration_frames :: int
  calibration_bboxes :: "BoundingBox list"

text \<open>The constructor reads the clock once, for \<open>state_start_time\<close>.\<close>

definition BedExitAgent_init :: "world \<Rightarrow> nat \<Rightarrow> BedExitConfig \<Rightarrow> BedExitAgent \<times> nat" where
  "BedExitAgent_init env w config =
     (case time_time env w of
        (t, w1) \<Rightarrow>
          (\<lparr>agent_name = ''bed_exit'', enabled = True, frame_count = 0,
            bed_region = cfg_bed_region config,
            states = config_get (cfg_states config)
                       [''IN_BED'', ''SITTING_UP'', ''STANDING'', ''OUT_OF_BED''],
            transition_confidence = config_get (cfg_transition_confidence config) 0.7,
            sitting_angle_threshold = config_get (cfg_sitting_angle_threshold config) 45,
            standing_height_threshold = config_get (cfg_standing_height_threshold config) 0.6,
            alert_on_states = config_get (cfg_alert_on_states config) [''STANDING'', ''OUT_OF_BED''],
            current_state = ''IN_BED'',
            state_start_time = t,
            last_transition_time = 0,
            calibration_frames = 0,
            calibration_bboxes = []\<rparr>, w1))"

text \<open>
  \<open>_determine_state\<close> reads keypoints 23, 24, 11 and 12 (\<open>IndexError\<close> on a shorter
  pose) and divides by the frame height (\<open>ZeroDivisionError\<close> when it is 0). A
  \<open>BoundingBox\<close> object is always true in a condition, so the overlap is 0 only when
  no bed region is set.
\<close>

definition determine_state ::
  "BedExitAgent \<Rightarrow> BoundingBox \<Rightarrow> PoseData \<Rightarrow> int \<Rightarrow> error + string" where
  "determine_state a pbox p frame_height =
     (let kps = keypoints p in
      if length kps \<le> 24 then Inl IndexError
      else
        (let left_hip = kps ! 23; right_hip = kps ! 24;
             left_shoulder = kps ! 11; right_shoulder = kps ! 12;
             mid_hip_y = (kp_y left_hip + kp_y right_hip) / 2;
             mid_shoulder_y = (kp_y left_shoulder + kp_y right_shoulder) / 2
         in if frame_height = 0 then Inl ZeroDivisionError
            else
              (let hh = 1 - mid_hip_y / real_of_int frame_height;
                   angle = \<bar>degrees (arctan2
                              ((kp_x left_shoulder + kp_x right_shoulder) / 2
                                 - (kp_x left_hip + kp_x right_hip) / 2)
                              (mid_shoulder_y - mid_hip_y))\<bar>;
                   overlap = (case bed_region a of
                                Some region \<Rightarrow> compute_iou pbox region
                              | None \<Rightarrow> 0)
               in if hh > standing_height_threshold a \<and> angle < 30 then Inr ''STANDING''
                  else if overlap < 0.3 then Inr ''OUT_OF_BED''
                  else if angle > sitting_angle_threshold a \<and> hh > 0.3 then Inr ''SITTING_UP''
                  else Inr ''IN_BED'')))"

definition np_mean :: "real list \<Rightarrow> real" where
  "np_mean xs = sum_list xs / real (length xs)"

definition calibrate_bed_region :: "BedExitAgent \<Rightarrow> FrameMetadata \<Rightarrow> BedExitAgent" where
  "calibrate_bed_region a md =
     (case detections md of
        [] \<Rightarrow> a
      | detection # _ \<Rightarrow>
          (let a1 = a\<lparr>calibration_bboxes := calibration_bboxes a @ [bbox detection],
                       calibration_frames := calibration_frames a + 1\<rparr>
           in if calibration_frames a1 \<ge> 30
              then
                (let avg_x1 = np_mean (map bb_x1 (calibration_bboxes a1));
                     avg_y1 = np_mean (map bb_y1 (calibration_bboxes a1));
                     avg_x2 = np_mean (map bb_x2 (calibration_bboxes a1));
                     avg_y2 = np_mean (map bb_y2 (calibration_bboxes a1));
                     wd = avg_x2 - avg_x1;
                     ht = avg_y2 - avg_y1
                 in a1\<lparr>bed_region :=
                          Some \<lparr>bb_x1 = avg_x1 - wd * 0.1, bb_y1 = avg_y1 - ht * 0.1,
                                bb_x2 = avg_x2 + wd * 0.1, bb_y2 = avg_y2 + ht * 0.1,
                                bb_confidence = 1\<rparr>\<rparr>)
              else a1))"

definition bed_exit_event ::
  "BedExitAgent \<Rightarrow> FrameMetadata \<Rightarrow> BoundingBox \<Rightarrow> string \<Rightarrow> string \<Rightarrow> BaseEvent" where
  "bed_exit_event a md pbox new_state prev_state =
     \<lparr>event_type = ''bed_exit'', event_timestamp = timestamp md,
      confidence = transition_confidence a, event_agent_name = agent_name a,
      event_frame_id = frame_id md,
      details = BedExit
        \<lparr>state = new_state, previous_state = Some prev_state, transition = True,
         duration_in_state = 0, event_bed_region = bed_region a,
         person_bbox = Some pbox\<rparr>\<rparr>"

definition BedExitAgent_detect ::
  "world \<Rightarrow> BedExitAgent \<Rightarrow> nat \<Rightarrow> frame \<Rightarrow> FrameMetadata \<Rightarrow>
   error + (BaseEvent option \<times> BedExitAgent \<times> nat)" where
  "BedExitAgent_detect env a w fr md =
     (if \<not> enabled a then Inr (None, a, w)
      else
        (let a1 = a\<lparr>frame_count := frame_count a + 1\<rparr> in
         case bed_region a1 of
           None \<Rightarrow> Inr (None, calibrate_bed_region a1 md, w)
         | Some region \<Rightarrow>
             (case detections md of
               [] \<Rightarrow> Inr (None, a1, w)
             | detection # _ \<Rightarrow>
                 (case pose detection of
                   None \<Rightarrow> Inr (None, a1, w)
                 | Some p \<Rightarrow>
                     (case determine_state a1 (bbox detection) p (height md) of
                       Inl e \<Rightarrow> Inl e
                     | Inr new_state \<Rightarrow>
                         if new_state \<noteq> current_state a1
                         then
                           (case time_time env w of
                             (t, w1) \<Rightarrow>
                               (let a2 = a1\<lparr>current_state := new_state,
                                            last_transition_time := t,
                                            state_start_time := t\<rparr>
                                in if new_state \<in> set (alert_on_states a2)
                                   then Inr (Some (bed_exit_event a2 md (bbox detection)
                                                     new_state (current_state a1)), a2, w1)
                                   else Inr (None, a2, w1)))
                         else Inr (None, a1, w))))))"

text \<open>
  A run of the agent over a sequence of frames. For every frame the trace records
  what the call returned and the stored state before and after the call.
\<close>

fun bed_exit_run ::
  "world \<Rightarrow> BedExitAgent \<Rightarrow> nat \<Rightarrow> FrameMetadata list \<Rightarrow>
   error + ((BaseEvent option \<times> string \<times> string) list \<times> BedExitAgent \<times> nat)" where
  "bed_exit_run env a w [] = Inr ([], a, w)"
| "bed_exit_run env a w (md # mds) =
     (case BedExitAgent_detect env a w [] md of
        Inl e \<Rightarrow> Inl e
      | Inr (out, a', w') \<Rightarrow>
          (case bed_exit_run env a' w' mds of
             Inl e \<Rightarrow> Inl e
           | Inr (tr, a'', w'') \<Rightarrow>
               Inr ((out, current_state a, current_state a') # tr, a'', w'')))"

definition bed_exit_fields :: "BaseEvent \<Rightarrow> BedExitFields option" where
  "bed_exit_fields ev = (case details ev of BedExit f \<Rightarrow> Some f | _ \<Rightarrow> None)"

subsection \<open>Bed exit agent: a concrete run\<close>

text \<open>
  An agent configured with a bed region, and two frames of a person who stands
  upright well away from the bed.
\<close>

definition ex_bed :: BoundingBox where
  "ex_bed = \<lparr>bb_x1 = 100, bb_y1 = 400, bb_x2 = 600, bb_y2 = 700, bb_confidence = 1\<rparr>"

definition ex_away_bbox :: BoundingBox where
  "ex_away_bbox = \<lparr>bb_x1 = 900, bb_y1 = 100, bb_x2 = 1100, bb_y2 = 700, bb_confidence = 0.9\<rparr>"

definition ex_upright_pose :: PoseData where
  "ex_upright_pose =
     \<lparr>keypoints = replicate 11 (ex_kp 1000 150 1) @ [ex_kp 1000 200 1, ex_kp 1000 200 1]
                    @ replicate 10 (ex_kp 1000 300 1) @ [ex_kp 1000 400 1, ex_kp 1000 400 1]
                    @ replicate 8 (ex_kp 1000 600 1),
      pose_timestamp = 1001\<rparr>"

definition ex_away_md :: "int \<Rightarrow> FrameMetadata" where
  "ex_away_md i =
     \<lparr>frame_id = i, timestamp = 1001, width = 1280, height = 720, fps = 30,
      detections = [\<lparr>track_id = 1, bbox = ex_away_bbox, det_confidence = 0.9,
                     pose = Some ex_upright_pose, face_bbox = None\<rparr>]\<rparr>"

definition ex_bed_agent :: BedExitAgent where
  "ex_bed_agent = fst (BedExitAgent_init ex_world 0 (BED_EXIT_CONFIG\<lparr>cfg_bed_region := Some ex_bed\<rparr>))"

definition ex_left_bed :: BedExitAgent where
  "ex_left_bed = ex_bed_agent\<lparr>frame_count := 1, current_state := ''OUT_OF_BED'',
                   last_transition_time := 1001, state_start_time := 1001\<rparr>"

subsection \<open>models/rppg\_processor.py\<close>

text \<open>
  The private methods of \<open>RPPGProcessor\<close> (chrominance and projection formulas,
  Butterworth filtering, Fourier peak picking, the quality estimate) are
  floating-point signal processing on numpy and scipy arrays. They are parameters of
  the model, with \<open>None\<close> where the method raises; \<open>process\<close>, which calls them
  inside a \<open>try\<close> block that turns every exception into \<open>None\<close>, is modelled as
  it is written.
\<close>

type_synonym rgb = "real \<times> real \<times> real"

record rppg_backend =
  chrom_algorithm :: "rgb list \<Rightarrow> real list option"
  pos_algorithm :: "rgb list \<Rightarrow> real list option"
  ica_algorithm :: "rgb list \<Rightarrow> real list option"
  extract_heart_rate :: "real list \<Rightarrow> (real \<times> real) option"
  extract_respiratory_rate :: "real list \<Rightarrow> (real \<times> real) option"
  compute_signal_quality :: "real list \<Rightarrow> real option"

record RPPGProcessor =
  algorithm :: string
  rppg_fps :: real
  rppg_window_size :: nat

record VitalSigns =
  vs_heart_rate :: real
  vs_respiratory_rate :: real
  vs_signal_quality :: real
  vs_hr_confidence :: real
  vs_rr_confidence :: real

definition roi_size :: "frame \<Rightarrow> nat" where
  "roi_size roi = 3 * length (concat roi)"

definition mean_rgb :: "frame \<Rightarrow> rgb" where
  "mean_rgb roi =
     (let px = concat roi; n = real (length px)
      in (sum_list (map (\<lambda>(r, g, b). real r) px) / n,
          sum_list (map (\<lambda>(r, g, b). real g) px) / n,
          sum_list (map (\<lambda>(r, g, b). real b) px) / n))"

definition extract_rgb_signals :: "RPPGProcessor \<Rightarrow> frame list \<Rightarrow> rgb list option" where
  "extract_rgb_signals pr face_rois =
     (let rgb_values = map mean_rgb (filter (\<lambda>roi. roi_size roi \<noteq> 0) face_rois)
      in if length rgb_values < rppg_window_size pr then None else Some rgb_values)"

definition process :: "rppg_backend \<Rightarrow> RPPGProcessor \<Rightarrow> frame list \<Rightarrow> VitalSigns option" where
  "process be pr face_rois =
     (if length face_rois < rppg_window_size pr then None
      else
        (case extract_rgb_signals pr face_rois of
           None \<Rightarrow> None
         | Some rgb_signals \<Rightarrow>
             (case (if algorithm pr = ''CHROM'' then chrom_algorithm be rgb_signals
                    else if algorithm pr = ''POS'' then pos_algorithm be rgb_signals
                    else ica_algorithm be rgb_signals) of
                None \<Rightarrow> None
              | Some pulse_signal \<Rightarrow>
                  (case extract_heart_rate be pulse_signal of
                     None \<Rightarrow> None
                   | Some (hr, hr_conf) \<Rightarrow>
                       (case extract_respiratory_rate be pulse_signal of
                          None \<Rightarrow> None
                        | Some (rr, rr_conf) \<Rightarrow>
                            (case compute_signal_quality be pulse_signal of
                               None \<Rightarrow> None
                             | Some quality \<Rightarrow>
                                 Some \<lparr>vs_heart_rate = hr, vs_respiratory_rate = rr,
                                       vs_signal_quality = quality,
                                       vs_hr_confidence = hr_conf,
                                       vs_rr_confidence = rr_conf\<rparr>))))))"

subsection \<open>agents/vital\_signs\_agent.py\<close>

record VitalSignsConfig =
  cfg_algorithm :: "string option"
  cfg_fps :: "real option"
  cfg_window_size :: "nat option"
  cfg_hr_range :: "(real \<times> real) option"
  cfg_rr_range :: "(real \<times> real) option"
  cfg_signal_quality_threshold :: "real option"
  cfg_update_interval :: "int option"

definition VITAL_SIGNS_CONFIG :: VitalSignsConfig where
  "VITAL_SIGNS_CONFIG =
     \<lparr>cfg_algorithm = Some ''CHROM'', cfg_fps = Some 30, cfg_window_size = Some 300,
      cfg_hr_range = Some (40, 180), cfg_rr_range = Some (8, 30),
      cfg_signal_quality_threshold = Some 0.6, cfg_update_interval = Some 30\<rparr>"

text \<open>
  \<open>rppg_calls\<close> is bookkeeping of the model, not an attribute of the class: it counts
  the calls of \<open>rppg_processor.process\<close> that the agent has made.
\<close>

record VitalSignsAgent = BaseAgent +
  window_size :: nat
  hr_range :: "real \<times> real"
  rr_range :: "real \<times> real"
  signal_quality_threshold :: real
  update_interval :: int
  rppg_processor :: RPPGProcessor
  face_roi_buffer :: "frame list"
  last_update_frame :: int
  rppg_calls :: nat

definition VitalSignsAgent_init :: "VitalSignsConfig \<Rightarrow> VitalSignsAgent" where
  "VitalSignsAgent_init config =
     \<lparr>agent_name = ''vital_signs'', enabled = True, frame_count = 0,
      window_size = config_get (cfg_window_size config) 300,
      hr_range = config_get (cfg_hr_range config) (40, 180),
      rr_range = config_get (cfg_rr_range config) (8, 30),
      signal_quality_threshold = config_get (cfg_signal_quality_threshold config) 0.6,
      update_interval = config_get (cfg_update_interval config) 30,
      rppg_processor =
        \<lparr>algorithm = config_get (cfg_algorithm config) ''CHROM'',
         rppg_fps = config_get (cfg_fps config) 30,
         rppg_window_size = config_get (cfg_window_size config) 300\<rparr>,
      face_roi_buffer = [],
      last_update_frame = 0,
      rppg_calls = 0\<rparr>"

text \<open>Python's \<open>int\<close> of a float truncates towards zero.\<close>

definition py_int :: "real \<Rightarrow> int" where
  "py_int r = (if r \<ge> 0 then \<lfloor>r\<rfloor> else \<lceil>r\<rceil>)"

definition shape0 :: "frame \<Rightarrow> int" where
  "shape0 fr = int (length fr)"

definition shape1 :: "frame \<Rightarrow> int" where
  "shape1 fr = (case fr of [] \<Rightarrow> 0 | row # _ \<Rightarrow> int (length row))"

text \<open>\<open>frame[y1:y2, x1:x2]\<close> for bounds inside the frame.\<close>

definition crop :: "frame \<Rightarrow> int \<Rightarrow> int \<Rightarrow> int \<Rightarrow> int \<Rightarrow> frame" where
  "crop fr cy1 cy2 cx1 cx2 =
     map (\<lambda>row. take (nat (cx2 - cx1)) (drop (nat cx1) row))
       (take (nat (cy2 - cy1)) (drop (nat cy1) fr))"

definition vital_signs_event :: "VitalSignsAgent \<Rightarrow> FrameMetadata \<Rightarrow> VitalSigns \<Rightarrow> BaseEvent" where
  "vital_signs_event a md v =
     \<lparr>event_type = ''vital_signs'', event_timestamp = timestamp md,
      confidence = vs_signal_quality v, event_agent_name = agent_name a,
      event_frame_id = frame_id md,
      details = VitalSigns
        \<lparr>heart_rate = Some (vs_heart_rate v), respiratory_rate = Some (vs_respiratory_rate v),
         signal_quality = vs_signal_quality v, hr_confidence = vs_hr_confidence v,
         rr_confidence = vs_rr_confidence v\<rparr>\<rparr>"

definition VitalSignsAgent_detect ::
  "rppg_backend \<Rightarrow> VitalSignsAgent \<Rightarrow> frame \<Rightarrow> FrameMetadata \<Rightarrow>
   BaseEvent option \<times> VitalSignsAgent" where
  "VitalSignsAgent_detect be a fr md =
     (if \<not> enabled a then (None, a)
      else
        (let a1 = a\<lparr>frame_count := frame_count a + 1\<rparr> in
         case detections md of
           [] \<Rightarrow> (None, a1)
         | detection # _ \<Rightarrow>
             (case face_bbox detection of
               None \<Rightarrow> (None, a1)
             | Some fb \<Rightarrow>
                 (let cx1 = max 0 (py_int (bb_x1 fb)); cy1 = max 0 (py_int (bb_y1 fb));
                      cx2 = min (shape1 fr) (py_int (bb_x2 fb));
                      cy2 = min (shape0 fr) (py_int (bb_y2 fb))
                  in if cx2 \<le> cx1 \<or> cy2 \<le> cy1 then (None, a1)
                     else
                       (let face_roi = crop fr cy1 cy2 cx1 cx2;
                            a2 = a1\<lparr>face_roi_buffer :=
                                       deque_append (window_size a1) (face_roi_buffer a1) face_roi\<rparr>
                        in if frame_count a2 - last_update_frame a2 < update_interval a2
                           then (None, a2)
                           else if length (face_roi_buffer a2) < window_size a2 then (None, a2)
                           else
                             (let a3 = a2\<lparr>rppg_calls := Suc (rppg_calls a2)\<rparr> in
                              case process be (rppg_processor a3) (face_roi_buffer a3) of
                                None \<Rightarrow> (None, a3)
                              | Some vital_signs \<Rightarrow>
                                  (let hr_valid = (fst (hr_range a3) \<le> vs_heart_rate vital_signs
                                                   \<and> vs_heart_rate vital_signs \<le> snd (hr_range a3));
                                       rr_valid = (fst (rr_range a3) \<le> vs_respiratory_rate vital_signs
                                                   \<and> vs_respiratory_rate vital_signs \<le> snd (rr_range a3));
                                       quality_valid = (vs_signal_quality vital_signs
                                                          \<ge> signal_quality_threshold a3)
                                   in if hr_valid \<and> rr_valid \<and> quality_valid
                                      then (Some (vital_signs_event a3 md vital_signs),
                                            a3\<lparr>last_update_frame := frame_count a3\<rparr>)
                                      else (None, a3))))))))"

fun vital_signs_run ::
  "rppg_backend \<Rightarrow> VitalSignsAgent \<Rightarrow> (frame \<times> FrameMetadata) list \<Rightarrow>
   BaseEvent option list \<times> VitalSignsAgent" where
  "vital_signs_run be a [] = ([], a)"
| "vital_signs_run be a ((fr, md) # rest) =
     (case VitalSignsAgent_detect be a fr md of
        (out, a') \<Rightarrow>
          (case vital_signs_run be a' rest of (outs, a'') \<Rightarrow> (out # outs, a'')))"

text \<open>
  The face crop a frame yields, when it yields one: the frame has a detection with a
  face box, and the box clipped to the frame is not empty.
\<close>

definition face_roi_of :: "frame \<Rightarrow> FrameMetadata \<Rightarrow> frame option" where
  "face_roi_of fr md =
     (case detections md of
        [] \<Rightarrow> None
      | detection # _ \<Rightarrow>
          (case face_bbox detection of
             None \<Rightarrow> None
           | Some fb \<Rightarrow>
               (let cx1 = max 0 (py_int (bb_x1 fb)); cy1 = max 0 (py_int (bb_y1 fb));
                    cx2 = min (shape1 fr) (py_int (bb_x2 fb));
                    cy2 = min (shape0 fr) (py_int (bb_y2 fb))
                in if cx2 \<le> cx1 \<or> cy2 \<le> cy1 then None
                   else Some (crop fr cy1 cy2 cx1 cx2))))"

text \<open>
  The window a detect call hands to the processor, when it hands one over: the
  agent is enabled, the frame yields a face crop, the update interval has elapsed
  since the last update and the buffer is full once the crop is appended.
\<close>

definition processed_window :: "VitalSignsAgent \<Rightarrow> frame \<Rightarrow> FrameMetadata \<Rightarrow> frame list option" where
  "processed_window a fr md =
     (if \<not> enabled a then None
      else
        (case face_roi_of fr md of
           None \<Rightarrow> None
         | Some face_roi \<Rightarrow>
             (let buf = deque_append (window_size a) (face_roi_buffer a) face_roi
              in if frame_count a + 1 - last_update_frame a < update_interval a then None
                 else if length buf < window_size a then None
                 else Some buf)))"

definition vitals_valid :: "VitalSignsAgent \<Rightarrow> VitalSigns \<Rightarrow> bool" where
  "vitals_valid a v =
     (fst (hr_range a) \<le> vs_heart_rate v \<and> vs_heart_rate v \<le> snd (hr_range a)
      \<and> fst (rr_range a) \<le> vs_respiratory_rate v \<and> vs_respiratory_rate v \<le> snd (rr_range a)
      \<and> vs_signal_quality v \<ge> signal_quality_threshold a)"

subsection \<open>agents/immobility\_agent.py\<close>

record ImmobilityConfig =
  cfg_movement_threshold :: "real option"
  cfg_alert_duration :: "real option"
  cfg_warning_duration :: "real option"
  cfg_check_interval :: "real option"
  cfg_posture_change_threshold :: "real option"

definition IMMOBILITY_CONFIG :: ImmobilityConfig where
  "IMMOBILITY_CONFIG =
     \<lparr>cfg_movement_threshold = Some 0.05, cfg_alert_duration = Some 7200,
      cfg_warning_duration = Some 5400, cfg_check_interval = Some 60,
      cfg_posture_change_threshold = Some 15\<rparr>"

record ImmobilitySample =
  im_pose :: PoseData
  im_timestamp :: real

record ImmobilityAgent = BaseAgent +
  movement_threshold :: real
  alert_duration :: real
  warning_duration :: real
  check_interval :: real
  posture_change_threshold :: real
  last_pose :: "PoseData option"
  last_movement_time :: real
  last_check_time :: real
  posture_change_count :: int
  current_posture :: string
  immobility_pose_buffer :: "ImmobilitySample TemporalBuffer"

text \<open>The constructor reads the clock twice.\<close>

definition ImmobilityAgent_init ::
  "world \<Rightarrow> nat \<Rightarrow> ImmobilityConfig \<Rightarrow> ImmobilityAgent \<times> nat" where
  "ImmobilityAgent_init env w config =
     (case time_time env w of
        (t1, w1) \<Rightarrow>
          (case time_time env w1 of
             (t2, w2) \<Rightarrow>
               (\<lparr>agent_name = ''immobility'', enabled = True, frame_count = 0,
                 movement_threshold = config_get (cfg_movement_threshold config) 0.05,
                 alert_duration = config_get (cfg_alert_duration config) 7200,
                 warning_duration = config_get (cfg_warning_duration config) 5400,
                 check_interval = config_get (cfg_check_interval config) 60,
                 posture_change_threshold = config_get (cfg_posture_change_threshold config) 15,
                 last_pose = None,
                 last_movement_time = t1,
                 last_check_time = t2,
                 posture_change_count = 0,
                 current_posture = ''unknown'',
                 immobility_pose_buffer = TemporalBuffer_init 30\<rparr>, w2)))"

text \<open>
  \<open>_compute_movement\<close>: the mean displacement of keypoints 0, 11, 12, 23 and 24
  over those that are visible in both poses (\<open>IndexError\<close> on a shorter pose).
\<close>

definition compute_movement :: "PoseData \<Rightarrow> PoseData \<Rightarrow> error + real" where
  "compute_movement pose1 pose2 =
     (if length (keypoints pose1) \<le> 24 \<or> length (keypoints pose2) \<le> 24 then Inl IndexError
      else
        (let seen = filter (\<lambda>idx. visibility (keypoints pose1 ! idx) > 0.5
                                 \<and> visibility (keypoints pose2 ! idx) > 0.5)
                      [0, 11, 12, 23, 24];
             total_displacement =
               sum_list (map (\<lambda>idx. sqrt ((kp_x (keypoints pose1 ! idx) - kp_x (keypoints pose2 ! idx))\<^sup>2
                                          + (kp_y (keypoints pose1 ! idx) - kp_y (keypoints pose2 ! idx))\<^sup>2))
                           seen)
         in if length seen > 0 then Inr (total_displacement / real (length seen)) else Inr 0))"

definition determine_posture :: "PoseData \<Rightarrow> error + string" where
  "determine_posture p =
     (let kps = keypoints p in
      if length kps \<le> 24 then Inl IndexError
      else
        (let left_shoulder = kps ! 11; right_shoulder = kps ! 12;
             left_hip = kps ! 23; right_hip = kps ! 24;
             mid_shoulder_y = (kp_y left_shoulder + kp_y right_shoulder) / 2;
             mid_hip_y = (kp_y left_hip + kp_y right_hip) / 2;
             mid_shoulder_x = (kp_x left_shoulder + kp_x right_shoulder) / 2;
             mid_hip_x = (kp_x left_hip + kp_x right_hip) / 2;
             angle = \<bar>degrees (arctan2 (mid_shoulder_x - mid_hip_x) (mid_shoulder_y - mid_hip_y))\<bar>
         in if angle > 60 then Inr ''lying_side''
            else if mid_shoulder_y < mid_hip_y then Inr ''prone''
            else Inr ''supine''))"

text \<open>The block of \<open>detect\<close> that runs when a previous pose exists.\<close>

definition track_movement ::
  "world \<Rightarrow> ImmobilityAgent \<Rightarrow> nat \<Rightarrow> PoseData \<Rightarrow> error + (ImmobilityAgent \<times> nat)" where
  "track_movement env a w p =
     (case last_pose a of
        None \<Rightarrow> Inr (a, w)
      | Some previous \<Rightarrow>
          (case compute_movement previous p of
             Inl e \<Rightarrow> Inl e
           | Inr movement \<Rightarrow>
               (case (if movement > movement_threshold a
                      then (case time_time env w of
                              (t, w1) \<Rightarrow> (a\<lparr>last_movement_time := t\<rparr>, w1))
                      else (a, w)) of
                  (a1, w1) \<Rightarrow>
                    (case determine_posture p of
                       Inl e \<Rightarrow> Inl e
                     | Inr new_posture \<Rightarrow>
                         if new_posture \<noteq> current_posture a1
                         then Inr (a1\<lparr>posture_change_count := posture_change_count a1 + 1,
                                      current_posture := new_posture\<rparr>, w1)
                         else Inr (a1, w1)))))"

definition immobility_event ::
  "ImmobilityAgent \<Rightarrow> FrameMetadata \<Rightarrow> real \<Rightarrow> string \<Rightarrow> BaseEvent" where
  "immobility_event a md dur risk =
     \<lparr>event_type = ''immobility'', event_timestamp = timestamp md,
      confidence = min 1 (dur / alert_duration a), event_agent_name = agent_name a,
      event_frame_id = frame_id md,
      details = Immobility
        \<lparr>immobility_duration = dur, event_last_movement_time = last_movement_time a,
         risk_level = risk, posture = Some (current_posture a), movement_magnitude = 0,
         event_posture_change_count = posture_change_count a\<rparr>\<rparr>"

definition ImmobilityAgent_detect ::
  "world \<Rightarrow> ImmobilityAgent \<Rightarrow> nat \<Rightarrow> frame \<Rightarrow> FrameMetadata \<Rightarrow>
   error + (BaseEvent option \<times> ImmobilityAgent \<times> nat)" where
  "ImmobilityAgent_detect env a w fr md =
     (if \<not> enabled a then Inr (None, a, w)
      else
        (let a1 = a\<lparr>frame_count := frame_count a + 1\<rparr> in
         case detections md of
           [] \<Rightarrow> Inr (None, a1, w)
         | detection # _ \<Rightarrow>
             (case pose detection of
               None \<Rightarrow> Inr (None, a1, w)
             | Some p \<Rightarrow>
                 (let a2 = a1\<lparr>immobility_pose_buffer :=
                            add (immobility_pose_buffer a1)
                              \<lparr>im_pose = p, im_timestamp = timestamp md\<rparr>\<rparr>
                  in case track_movement env a2 w p of
                       Inl e \<Rightarrow> Inl e
                     | Inr (a3, w1) \<Rightarrow>
                         (let a4 = a3\<lparr>last_pose := Some p\<rparr> in
                          case time_time env w1 of
                            (current_time, w2) \<Rightarrow>
                              if current_time - last_check_time a4 < check_interval a4
                              then Inr (None, a4, w2)
                              else
                                (let a5 = a4\<lparr>last_check_time := current_time\<rparr>;
                                     dur = current_time - last_movement_time a5;
                                     risk = (if dur > alert_duration a5 then ''HIGH''
                                             else if dur > warning_duration a5 then ''MEDIUM''
                                             else ''LOW'')
                                 in if risk \<in> set [''MEDIUM'', ''HIGH'']
                                    then (if alert_duration a5 = 0 then Inl ZeroDivisionError
                                          else Inr (Some (immobility_event a5 md dur risk), a5, w2))
                                    else Inr (None, a5, w2)))))))"

subsection \<open>Vital signs agent: what a detect call processes, and concrete frames\<close>

text \<open>The agent after a call that handed the window \<open>buf\<close> to the processor.\<close>

definition processed_agent :: "VitalSignsAgent \<Rightarrow> frame list \<Rightarrow> VitalSignsAgent" where
  "processed_agent a buf =
     a\<lparr>frame_count := frame_count a + 1, face_roi_buffer := buf,
       rppg_calls := Suc (rppg_calls a)\<rparr>"

text \<open>
  The agent is due: it is enabled, its buffer is full, and at the next frame the
  update interval will have elapsed.
\<close>

definition due :: "VitalSignsAgent \<Rightarrow> bool" where
  "due a = (enabled a \<and> \<not> (frame_count a + 1 - last_update_frame a < update_interval a)
            \<and> window_size a \<le> length (face_roi_buffer a))"

text \<open>What \<open>detect\<close> does once it holds the face crop of the frame.\<close>

definition after_roi ::
  "rppg_backend \<Rightarrow> VitalSignsAgent \<Rightarrow> FrameMetadata \<Rightarrow> frame \<Rightarrow> BaseEvent option \<times> VitalSignsAgent" where
  "after_roi be a md face_roi =
     (let buf = deque_append (window_size a) (face_roi_buffer a) face_roi;
          a2 = a\<lparr>frame_count := frame_count a + 1, face_roi_buffer := buf\<rparr>
      in if frame_count a + 1 - last_update_frame a < update_interval a then (None, a2)
         else if length buf < window_size a then (None, a2)
         else
           (case process be (rppg_processor a) buf of
              None \<Rightarrow> (None, processed_agent a buf)
            | Some v \<Rightarrow>
                if vitals_valid a v
                then (Some (vital_signs_event a md v),
                      (processed_agent a buf)\<lparr>last_update_frame := frame_count a + 1\<rparr>)
                else (None, processed_agent a buf)))"

text \<open>
  A backend that reports a fixed heart rate, a 2 by 2 frame that is all face, and an
  agent with a window of two crops that already holds one.
\<close>

definition ex_backend :: "real \<Rightarrow> rppg_backend" where
  "ex_backend hr =
     \<lparr>chrom_algorithm = (\<lambda>rgb. Some (map fst rgb)),
      pos_algorithm = (\<lambda>rgb. Some (map fst rgb)),
      ica_algorithm = (\<lambda>rgb. Some (map fst rgb)),
      extract_heart_rate = (\<lambda>pulse. Some (hr, 0.9)),
      extract_respiratory_rate = (\<lambda>pulse. Some (15, 0.8)),
      compute_signal_quality = (\<lambda>pulse. Some 0.8)\<rparr>"

definition ex_frame :: frame where
  "ex_frame = [[(120, 90, 80), (122, 91, 80)], [(121, 90, 81), (120, 92, 80)]]"

definition ex_face_md :: "int \<Rightarrow> FrameMetadata" where
  "ex_face_md i =
     \<lparr>frame_id = i, timestamp = 1000 + real_of_int i, width = 2, height = 2, fps = 30,
      detections = [\<lparr>track_id = 1, bbox = ex_bbox, det_confidence = 0.9, pose = None,
                     face_bbox = Some \<lparr>bb_x1 = 0, bb_y1 = 0, bb_x2 = 2, bb_y2 = 2,
                                       bb_confidence = 0.9\<rparr>\<rparr>]\<rparr>"

definition ex_vital_agent :: VitalSignsAgent where
  "ex_vital_agent =
     (VitalSignsAgent_init
        (VITAL_SIGNS_CONFIG\<lparr>cfg_window_size := Some 2, cfg_update_interval := Some 1\<rparr>))
       \<lparr>frame_count := 1, face_roi_buffer := [ex_frame]\<rparr>"

definition ex_steady :: "VitalSignsAgent \<Rightarrow> bool" where
  "ex_steady a =
     (due a \<and> window_size a = 2 \<and> hr_range a = (40, 180)
      \<and> rppg_processor a = \<lparr>algorithm = ''CHROM'', rppg_fps = 30, rppg_window_size = 2\<rparr>
      \<and> face_roi_buffer a = [ex_frame, ex_frame])"

definition ex_immobility_agent :: ImmobilityAgent where
  "ex_immobility_agent = fst (ImmobilityAgent_init ex_world 0 IMMOBILITY_CONFIG)"

section \<open>Properties of the sliding window buffer\<close>

lemma deque_append_eq:
  "length xs \<le> n \<Longrightarrow> deque_append n xs x = drop (Suc (length xs) - n) (xs @ [x])"
  by (cases xs) (auto simp: deque_append_def)

lemma add_all_buffer:
  "length (buffer b) \<le> maxlen b \<Longrightarrow>
   buffer (add_all b items) = drop (length (buffer b) + length items - maxlen b) (buffer b @ items)
   \<and> maxlen (add_all b items) = maxlen b"
proof (induction items arbitrary: b)
  case Nil
  then show ?case by (simp add: add_all_def)
next
  case (Cons x items)
  let ?b = "add b x"
  have buf: "buffer ?b = drop (Suc (length (buffer b)) - maxlen b) (buffer b @ [x])"
    using Cons.prems by (simp add: add_def deque_append_eq)
  have ml: "maxlen ?b = maxlen b" by (simp add: add_def)
  have le: "length (buffer ?b) \<le> maxlen ?b"
    using Cons.prems by (simp add: buf ml)
  have step: "add_all b (x # items) = add_all ?b items" by (simp add: add_all_def)
  from Cons.IH[OF le] have
    "buffer (add_all ?b items) =
       drop (length (buffer ?b) + length items - maxlen b) (buffer ?b @ items)"
    and "maxlen (add_all ?b items) = maxlen b"
    by (simp_all add: ml)
  moreover have
    "drop (length (buffer ?b) + length items - maxlen b) (buffer ?b @ items) =
     drop (length (buffer b) + length (x # items) - maxlen b) (buffer b @ x # items)"
  proof (cases "Suc (length (buffer b)) \<le> maxlen b")
    case True
    then show ?thesis by (simp add: buf)
  next
    case False
    with Cons.prems have full: "length (buffer b) = maxlen b" by simp
    show ?thesis
    proof (cases "buffer b")
      case Nil
      with full show ?thesis by (simp add: buf)
    next
      case (Cons y ys)
      with full show ?thesis by (simp add: buf)
    qed
  qed
  ultimately show ?case by (simp add: step)
qed

lemma add_all_fresh:
  "buffer (add_all (TemporalBuffer_init c) items) = drop (length items - c) items"
  using add_all_buffer[of "TemporalBuffer_init c" items]
  by (simp add: TemporalBuffer_init_def)

text \<open>
  What holds of the buffer after more items than its capacity were inserted: the size
  is the capacity, the oldest item is the (k-c+1)-th inserted one, a window of at
  least the size is the whole buffer, and a window of \<open>1 \<le> n < size\<close> items is the
  \<open>n\<close> most recent ones, oldest first.
\<close>

lemma buffer_after_overflow:
  assumes "c < length items" and "0 < c"
  shows "len (add_all (TemporalBuffer_init c) items) = c"
    and "get_oldest (add_all (TemporalBuffer_init c) items) = Some (items ! (length items - c))"
    and "get_latest (add_all (TemporalBuffer_init c) items) = Some (last items)"
    and "int c \<le> n \<Longrightarrow>
         get_window (add_all (TemporalBuffer_init c) items) n = drop (length items - c) items"
    and "0 < n \<Longrightarrow> n < int c \<Longrightarrow>
         get_window (add_all (TemporalBuffer_init c) items) n = drop (length items - nat n) items"
proof -
  let ?b = "add_all (TemporalBuffer_init c) items"
  have buf: "buffer ?b = drop (length items - c) items" by (rule add_all_fresh)
  have ln: "length (buffer ?b) = c" using assms by (simp add: buf)
  show "len ?b = c" by (simp add: len_def ln)
  have ne: "drop (length items - c) items \<noteq> []" using assms by simp
  show "get_oldest ?b = Some (items ! (length items - c))"
    using assms by (simp add: get_oldest_def buf hd_drop_conv_nth)
  show "get_latest ?b = Some (last items)"
    using assms by (simp add: get_latest_def buf)
  show "int c \<le> n \<Longrightarrow> get_window ?b n = drop (length items - c) items"
    by (simp add: get_window_def ln) (simp add: buf)
  show "0 < n \<Longrightarrow> n < int c \<Longrightarrow> get_window ?b n = drop (length items - nat n) items"
  proof -
    assume n: "0 < n" "n < int c"
    then have "get_window ?b n = drop (nat (int c - n)) (buffer ?b)"
      by (simp add: get_window_def ln slice_from_def)
    also have "\<dots> = drop (nat (int c - n) + (length items - c)) items"
      by (simp add: buf)
    also have "nat (int c - n) + (length items - c) = length items - nat n"
      using n assms by linarith
    finally show ?thesis .
  qed
qed

lemma empty_buffer_accessors:
  "buffer b = [] \<Longrightarrow> get_latest b = None \<and> get_oldest b = None"
  by (simp add: get_latest_def get_oldest_def)

text \<open>
  Claim C8. The claim says that \<open>get_window(n)\<close> for \<open>n < size\<close> returns the
  \<open>n\<close> most recent items. For \<open>n = 0\<close> the slice \<open>list(self.buffer)[-0:]\<close> is the
  whole list: on a buffer of capacity 3 that received 1, 2, 3, 4 the window of size 0
  is \<open>[2, 3, 4]\<close>, not the empty list.
\<close>

theorem get_window_zero_returns_all:
  "get_window (add_all (TemporalBuffer_init 3) [1, 2, 3, 4 :: int]) 0 = [2, 3, 4]
   \<and> len (add_all (TemporalBuffer_init 3) [1, 2, 3, 4 :: int]) = 3"
  by (simp add: add_all_def add_def deque_append_def TemporalBuffer_init_def
      get_window_def slice_from_def len_def)

section \<open>Properties of the fall detection agent\<close>

lemma analyze_flags:
  "analyze_fall_indicators a p h = Inr ind \<Longrightarrow>
     is_lying ind = (ind_hip_height ind < hip_height_threshold a \<and> ind_torso_angle ind > fall_angle_threshold a)
   \<and> is_falling ind = (ind_vertical_velocity ind > velocity_threshold a \<and> ind_torso_angle ind > fall_angle_threshold a / 2)
   \<and> is_near_fall ind = (ind_vertical_velocity ind > velocity_threshold a * 0.7 \<and> ind_torso_angle ind > fall_angle_threshold a * 0.7)
   \<and> lying_confidence ind = min 1 ((1 - ind_hip_height ind) * (ind_torso_angle ind / 90))
   \<and> fall_confidence ind = min 1 (ind_vertical_velocity ind * (ind_torso_angle ind / 90))
   \<and> near_fall_confidence ind = min 1 (ind_vertical_velocity ind * 0.8)"
  by (auto simp: analyze_fall_indicators_def Let_def split: if_splits sum.splits)

text \<open>
  Claim C4. On a detect call of the enabled fall agent with a pose, a full window and
  the cooldown elapsed, whose indicators are computed without an exception, the
  classification is the first match of: lying (hip height below its threshold and
  torso angle above the fall angle threshold), fall (vertical velocity above its
  threshold and torso angle above half the fall angle threshold), near\_fall (velocity
  above 0.7 times its threshold and angle above 0.7 times the fall angle threshold).
  An event is returned exactly when a classification exists and its confidence
  exceeds the confidence threshold, and then the time of the last event is set to
  the clock read at the emission. The default thresholds are 0.3, 60 and 0.7.
\<close>

theorem fall_detect_classification:
  assumes en: "enabled a"
    and dets: "detections md = detection # rest"
    and ps: "pose detection = Some p"
    and full: "sequence_length a \<le> len (fall_pose_buffer (fall_buffered a md detection p))"
    and cool: "\<not> clock env w - fall_last_event_time a < fall_event_cooldown a"
    and an: "analyze_fall_indicators (fall_buffered a md detection p) p (height md) = Inr ind"
  shows "FallDetectionAgent_detect env a w fr md =
     (case claimed_fall_classification a (ind_hip_height ind) (ind_torso_angle ind)
             (ind_vertical_velocity ind) of
        None \<Rightarrow> Inr (None, fall_buffered a md detection p, Suc w)
      | Some (ft, conf) \<Rightarrow>
          if conf > fall_confidence_threshold a
          then Inr (Some (fall_event (fall_buffered a md detection p) md detection p ind ft conf),
                    (fall_buffered a md detection p)\<lparr>fall_last_event_time := clock env (Suc w)\<rparr>,
                    Suc (Suc w))
          else Inr (None, fall_buffered a md detection p, Suc w))
     \<and> hip_height_threshold (FallDetectionAgent_init FALL_DETECTION_CONFIG) = 0.3
     \<and> fall_angle_threshold (FallDetectionAgent_init FALL_DETECTION_CONFIG) = 60
     \<and> fall_confidence_threshold (FallDetectionAgent_init FALL_DETECTION_CONFIG) = 0.7"
proof -
  note fl = analyze_flags[OF an]
  show ?thesis
    unfolding FallDetectionAgent_detect_def Let_def
    using en dets ps full cool fl an
    by (simp add: fall_buffered_def time_time_def claimed_fall_classification_def
        FallDetectionAgent_init_def FALL_DETECTION_CONFIG_def config_get_def)
qed

lemma ex_lying_analysis: "analyze_fall_indicators
       (fall_buffered ex_fall_agent ex_lying_md (ex_lying_detection 1001) (ex_lying_pose 1001))
       (ex_lying_pose 1001) (height ex_lying_md) = Inr ex_lying_indicators"
  by (simp add: analyze_fall_indicators_def compute_vertical_velocity_def fall_buffered_def
      ex_fall_agent_def ex_lying_md_def ex_lying_pose_def ex_lying_detection_def ex_kp_def
      FallDetectionAgent_init_def FALL_DETECTION_CONFIG_def config_get_def add_def
      deque_append_def len_def get_oldest_def get_latest_def nth_append arctan2_def
      degrees_def ex_lying_indicators_def Let_def)

text \<open>
  A frame on which the claim applies: the 30th frame of a person lying flat (shoulders
  and hips at the same height near the bottom of a 720 pixel frame) is classified
  lying with confidence 65/72 and an event is returned.
\<close>

theorem fall_detect_classification_witness:
  "FallDetectionAgent_detect ex_world ex_fall_agent 0 [] ex_lying_md =
     Inr (Some (fall_event
                 (fall_buffered ex_fall_agent ex_lying_md (ex_lying_detection 1001) (ex_lying_pose 1001))
                 ex_lying_md (ex_lying_detection 1001) (ex_lying_pose 1001) ex_lying_indicators
                 ''lying'' (65 / 72)),
          (fall_buffered ex_fall_agent ex_lying_md (ex_lying_detection 1001) (ex_lying_pose 1001))
             \<lparr>fall_last_event_time := 1001\<rparr>,
          2)"
proof -
  have en: "enabled ex_fall_agent"
    by (simp add: ex_fall_agent_def FallDetectionAgent_init_def)
  have dets: "detections ex_lying_md = ex_lying_detection 1001 # []"
    by (simp add: ex_lying_md_def)
  have ps: "pose (ex_lying_detection 1001) = Some (ex_lying_pose 1001)"
    by (simp add: ex_lying_detection_def)
  have full: "sequence_length ex_fall_agent \<le> len (fall_pose_buffer
      (fall_buffered ex_fall_agent ex_lying_md (ex_lying_detection 1001) (ex_lying_pose 1001)))"
    by (simp add: ex_fall_agent_def FallDetectionAgent_init_def FALL_DETECTION_CONFIG_def
        config_get_def fall_buffered_def add_def deque_append_def len_def)
  have cool: "\<not> clock ex_world 0 - fall_last_event_time ex_fall_agent
      < fall_event_cooldown ex_fall_agent"
    by (simp add: ex_world_def ex_fall_agent_def FallDetectionAgent_init_def)
  have thr: "fall_confidence_threshold ex_fall_agent = 0.7"
     "hip_height_threshold ex_fall_agent = 0.3" "fall_angle_threshold ex_fall_agent = 60"
    by (simp_all add: ex_fall_agent_def FallDetectionAgent_init_def FALL_DETECTION_CONFIG_def
        config_get_def)
  show ?thesis
    using fall_detect_classification[OF en dets ps full cool ex_lying_analysis, of "[]"]
    by (simp add: claimed_fall_classification_def thr ex_lying_indicators_def ex_world_def)
qed

section \<open>Properties of the seizure detection agent\<close>

lemma detect_not_evaluated:
  assumes "\<not> evaluates_condition env a w md"
  shows "\<exists>a' w'. SeizureDetectionAgent_detect env a w fr md = Inr (None, a', w')
           \<and> seizure_start_time a' = seizure_start_time a
           \<and> seizure_last_event_time a' = seizure_last_event_time a"
  using assms
  by (auto simp: evaluates_condition_def SeizureDetectionAgent_detect_def first_pose_def
      seizure_buffered_def time_time_def Let_def split: list.splits option.splits)

lemma detect_buffering:
  assumes "enabled a" "first_pose md = Some p"
    and "len (seizure_pose_buffer (seizure_buffered a md p)) < buffer_size a"
  shows "SeizureDetectionAgent_detect env a w fr md = Inr (None, seizure_buffered a md p, w)"
  using assms
  by (auto simp: SeizureDetectionAgent_detect_def first_pose_def
      seizure_buffered_def time_time_def Let_def split: list.splits option.splits)

lemma detect_cooldown:
  assumes "enabled a" "first_pose md = Some p"
    and "\<not> len (seizure_pose_buffer (seizure_buffered a md p)) < buffer_size a"
    and "clock env w - seizure_last_event_time a < seizure_event_cooldown a"
  shows "SeizureDetectionAgent_detect env a w fr md = Inr (None, seizure_buffered a md p, Suc w)"
  using assms
  by (auto simp: SeizureDetectionAgent_detect_def first_pose_def
      seizure_buffered_def time_time_def Let_def split: list.splits option.splits)

lemma detect_evaluated:
  assumes "evaluates_condition env a w md" "first_pose md = Some p"
  shows "SeizureDetectionAgent_detect env a w fr md =
     (case analyze_limb_movements (seizure_buffered a md p) of
        Inl e \<Rightarrow> Inl e
      | Inr si \<Rightarrow>
          if si_seizure_detected si
          then
            (let start = (case seizure_start_time a of None \<Rightarrow> clock env (Suc w) | Some s \<Rightarrow> s);
                 w2 = (case seizure_start_time a of None \<Rightarrow> Suc (Suc w) | Some s \<Rightarrow> Suc w)
             in if clock env w2 - start > duration_threshold a
                then Inr (Some (seizure_event ((seizure_buffered a md p)\<lparr>seizure_start_time := Some start\<rparr>)
                                  md si (clock env w2 - start)),
                          (seizure_buffered a md p)
                            \<lparr>seizure_start_time := Some start,
                             seizure_last_event_time := clock env (Suc w2)\<rparr>,
                          Suc (Suc w2))
                else Inr (None, (seizure_buffered a md p)\<lparr>seizure_start_time := Some start\<rparr>, Suc w2))
          else Inr (None, (seizure_buffered a md p)\<lparr>seizure_start_time := None\<rparr>, Suc w))"
  using assms
  by (auto simp: evaluates_condition_def SeizureDetectionAgent_detect_def first_pose_def
      seizure_buffered_def time_time_def Let_def split: list.splits option.splits sum.splits)

lemma visible_positions_ex:
  assumes "set idxs \<subseteq> {..<33}"
  shows "visible_positions (ex_pose_at px) idxs = map (\<lambda>i. (px, 300)) idxs"
proof -
  have "filter (\<lambda>idx. idx < length (keypoints (ex_pose_at px))
            \<and> visibility (keypoints (ex_pose_at px) ! idx) > 0.5) idxs = idxs"
    using assms by (intro filter_True) (auto simp: ex_pose_at_def ex_kp_def)
  moreover have "map (\<lambda>idx. (kp_x (keypoints (ex_pose_at px) ! idx), kp_y (keypoints (ex_pose_at px) ! idx))) idxs
      = map (\<lambda>i. (px, 300)) idxs"
    using assms by (intro map_cong) (auto simp: ex_pose_at_def ex_kp_def)
  ultimately show ?thesis by (simp add: visible_positions_def)
qed

lemma mean_const3: "np_mean_axis0 [(px, py), (px, py), (px, py)] = (px, py)"
  by (simp add: np_mean_axis0_def)

lemma extract_frames_ex:
  assumes "\<forall>i\<in>set idxs. i < 33" "length idxs = 3"
    and "map ss_pose buf = map ex_pose_at pxs"
  shows "extract_frames buf idxs = Some (map (\<lambda>px. (px, 300)) pxs)"
  using assms(3)
proof (induction buf arbitrary: pxs)
  case Nil
  then show ?case by simp
next
  case (Cons s buf)
  then obtain px pxs' where pxs: "pxs = px # pxs'" "ss_pose s = ex_pose_at px"
    "map ss_pose buf = map ex_pose_at pxs'"
    by (cases pxs) auto
  from assms(2) obtain i j k where idxs: "idxs = [i, j, k]"
    by (cases idxs; cases "tl idxs"; cases "tl (tl idxs)") auto
  have sub: "set idxs \<subseteq> {..<33}" using assms(1) by auto
  have vp: "visible_positions (ss_pose s) idxs = [(px, 300), (px, 300), (px, 300)]"
    by (simp add: pxs visible_positions_ex[OF sub]) (simp add: idxs)
  show ?case
    using Cons.IH[OF pxs(3)] by (simp add: vp mean_const3 pxs(1))
qed

lemma np_fft_impulse:
  assumes "m < length v" and "\<And>n. n < length v \<Longrightarrow> n \<noteq> m \<Longrightarrow> v ! n = 0"
  shows "cmod (np_fft v k) = \<bar>v ! m\<bar>"
proof -
  let ?f = "\<lambda>n. complex_of_real (v ! n) * cis (- (2 * pi * real k * real n / real (length v)))"
  have "(\<Sum>n<length v. ?f n) = (\<Sum>n\<in>{..<length v}. if n = m then ?f m else 0)"
    by (rule sum.cong) (auto simp: assms)
  also have "\<dots> = ?f m"
    using assms(1) by (simp add: sum.delta)
  finally have "np_fft v k = ?f m" by (simp add: np_fft_def)
  then show ?thesis by (simp add: norm_mult)
qed

lemma np_fft_zero:
  assumes "\<And>n. n < length v \<Longrightarrow> v ! n = 0"
  shows "np_fft v k = 0"
  by (simp add: np_fft_def assms)

lemma argmax_from_mem: "argmax_from f b xs \<in> insert b (set xs)"
  by (induction xs arbitrary: b) (auto split: if_splits)

lemma np_argmax_mem: "xs \<noteq> [] \<Longrightarrow> np_argmax f xs \<in> set xs"
  using argmax_from_mem[of f "hd xs" "tl xs"]
  by (cases xs) (auto simp: np_argmax_def)

lemma length_np_diff: "length (np_diff ps) = length ps - 1"
  by (simp add: np_diff_def)

lemma np_diff_nth:
  "Suc i < length ps \<Longrightarrow>
   np_diff ps ! i = (fst (ps ! Suc i) - fst (ps ! i), snd (ps ! Suc i) - snd (ps ! i))"
  by (simp add: np_diff_def nth_tl)

lemma jump_velocity_length:
  "length (map np_linalg_norm (np_diff (jump_track m n x0 x1))) = m + n - 1"
  by (simp add: length_np_diff jump_track_def)

lemma jump_velocity_nth:
  assumes "Suc i < m + n"
  shows "map np_linalg_norm (np_diff (jump_track m n x0 x1)) ! i
         = (if Suc i = m then \<bar>x1 - x0\<bar> else 0)"
proof -
  have len: "length (jump_track m n x0 x1) = m + n" by (simp add: jump_track_def)
  have nth: "\<And>j. j < m + n \<Longrightarrow> jump_track m n x0 x1 ! j = (if j < m then x0 else x1, 300)"
    by (simp add: jump_track_def nth_append)
  have "map np_linalg_norm (np_diff (jump_track m n x0 x1)) ! i
        = np_linalg_norm (np_diff (jump_track m n x0 x1) ! i)"
    using assms by (simp add: length_np_diff len)
  also have "\<dots> = np_linalg_norm ((if Suc i < m then x0 else x1) - (if i < m then x0 else x1), 0)"
    using assms by (simp add: np_diff_nth len nth)
  also have "\<dots> = (if Suc i = m then \<bar>x1 - x0\<bar> else 0)"
    by (auto simp: np_linalg_norm_def)
  finally show ?thesis .
qed

lemma band_149: "15 \<in> set (seizure_band (3, 10) 149)"
  by (simp add: seizure_band_def np_fftfreq_def)

lemma fft_analysis_flat_spectrum:
  assumes len: "length (np_diff tr) = 149"
    and fr: "frequency_range a = (3, 10)"
    and mag: "\<And>k. cmod (np_fft (map np_linalg_norm (np_diff tr)) k) = c"
  shows "\<exists>f. fft_analysis a tr =
           Inr \<lparr>is_seizure_pattern = (c / (149 / 2) > magnitude_threshold a),
                fft_frequency = f, fft_magnitude = c / (149 / 2)\<rparr>"
proof -
  have ne: "seizure_band (3, 10) 149 \<noteq> []" using band_149 by auto
  show ?thesis
    using ne unfolding fft_analysis_def Let_def
    by (simp add: len fr mag seizure_band_def)
qed

lemma fft_analysis_jump:
  assumes "0 < m" "0 < n" "m + n = 150" "\<bar>x1 - x0\<bar> = 30"
    and fr: "frequency_range a = (3, 10)" and mt: "magnitude_threshold a = 0.3"
  shows "\<exists>f. fft_analysis a (jump_track m n x0 x1) =
           Inr \<lparr>is_seizure_pattern = True, fft_frequency = f, fft_magnitude = 60 / 149\<rparr>"
proof -
  let ?v = "map np_linalg_norm (np_diff (jump_track m n x0 x1))"
  have lv: "length ?v = 149" using assms by (simp add: length_np_diff jump_track_def)
  have nth: "\<And>i. i < 149 \<Longrightarrow> ?v ! i = (if Suc i = m then 30 else 0)"
    using assms jump_velocity_nth[of _ m n x0 x1] by simp
  have m1: "m - 1 < length ?v" using assms lv by simp
  have "\<And>k. cmod (np_fft ?v k) = \<bar>?v ! (m - 1)\<bar>"
  proof (rule np_fft_impulse[OF m1])
    fix k i assume "i < length ?v" "i \<noteq> m - 1"
    then show "?v ! i = 0" using nth[of i] lv assms(1) by auto
  qed
  moreover have "?v ! (m - 1) = 30" using nth[of "m - 1"] assms by auto
  ultimately have mag: "\<And>k. cmod (np_fft ?v k) = 30" by simp
  have len: "length (np_diff (jump_track m n x0 x1)) = 149"
    using assms by (simp add: length_np_diff jump_track_def)
  from fft_analysis_flat_spectrum[OF len fr mag]
  show ?thesis by (simp add: mt)
qed

lemma fft_analysis_still:
  assumes fr: "frequency_range a = (3, 10)" and mt: "magnitude_threshold a = 0.3"
  shows "\<exists>f. fft_analysis a (jump_track 150 0 x0 x1) =
           Inr \<lparr>is_seizure_pattern = False, fft_frequency = f, fft_magnitude = 0\<rparr>"
proof -
  let ?v = "map np_linalg_norm (np_diff (jump_track 150 0 x0 x1))"
  have lv: "length ?v = 149" by (simp add: length_np_diff jump_track_def)
  have nth: "\<And>i. i < 149 \<Longrightarrow> ?v ! i = 0"
    using jump_velocity_nth[of _ 150 0 x0 x1] by simp
  have mag: "\<And>k. cmod (np_fft ?v k) = 0"
    using np_fft_zero[of ?v] nth lv by simp
  have len: "length (np_diff (jump_track 150 0 x0 x1)) = 149"
    by (simp add: length_np_diff jump_track_def)
  from fft_analysis_flat_spectrum[OF len fr mag]
  show ?thesis by (simp add: mt)
qed

lemma extract_trajectories_ex:
  assumes "buffer_size a = 150" "m + n = 150"
    and "map ss_pose (buffer (seizure_pose_buffer a))
         = map ex_pose_at (replicate m x0 @ replicate n x1)"
    and "(nm, idxs) \<in> set limbs"
  shows "extract_trajectories a idxs = Some (jump_track m n x0 x1)"
proof -
  have i: "\<forall>i\<in>set idxs. i < 33" "length idxs = 3"
    using assms(4) by (auto simp: limbs_def)
  have "extract_frames (buffer (seizure_pose_buffer a)) idxs
        = Some (map (\<lambda>px. (px, 300)) (replicate m x0 @ replicate n x1))"
    by (rule extract_frames_ex[OF i assms(3)])
  then show ?thesis
    using assms(1,2) by (simp add: extract_trajectories_def jump_track_def)
qed

lemma analyze_jump:
  assumes dt: "default_tuned a" and mn: "0 < m" "0 < n" "m + n = 150" and x: "\<bar>x1 - x0\<bar> = 30"
    and buf: "map ss_pose (buffer (seizure_pose_buffer a))
              = map ex_pose_at (replicate m x0 @ replicate n x1)"
  shows "\<exists>si. analyze_limb_movements a = Inr si \<and> si_seizure_detected si"
proof -
  have bs: "buffer_size a = 150" and fr: "frequency_range a = (3, 10)"
    and mt: "magnitude_threshold a = 0.3" and lm: "affected_limbs_min a = 2"
    using dt by (simp_all add: default_tuned_def)
  have ex: "\<And>nm idxs. (nm, idxs) \<in> set limbs \<Longrightarrow>
              extract_trajectories a idxs = Some (jump_track m n x0 x1)"
    by (rule extract_trajectories_ex[OF bs mn(3) buf])
  obtain f where f: "fft_analysis a (jump_track m n x0 x1) =
      Inr \<lparr>is_seizure_pattern = True, fft_frequency = f, fft_magnitude = 60 / 149\<rparr>"
    using fft_analysis_jump[OF mn x fr mt] by blast
  have e1: "extract_trajectories a [11, 13, 15] = Some (jump_track m n x0 x1)"
    and e2: "extract_trajectories a [12, 14, 16] = Some (jump_track m n x0 x1)"
    and e3: "extract_trajectories a [23, 25, 27] = Some (jump_track m n x0 x1)"
    and e4: "extract_trajectories a [24, 26, 28] = Some (jump_track m n x0 x1)"
    by (rule ex[of "''left_arm''"], simp add: limbs_def,
        rule ex[of "''right_arm''"], simp add: limbs_def,
        rule ex[of "''left_leg''"], simp add: limbs_def,
        rule ex[of "''right_leg''"], simp add: limbs_def)
  have "limb_loop a limbs ([], 0, 0)
          = Inr ([''left_arm'', ''right_arm'', ''left_leg'', ''right_leg''], 60 / 149, max 0 f)"
    by (simp add: limbs_def e1 e2 e3 e4 f)
  then show ?thesis
    by (auto simp: analyze_limb_movements_def mt lm)
qed

lemma analyze_still:
  assumes dt: "default_tuned a"
    and buf: "map ss_pose (buffer (seizure_pose_buffer a)) = map ex_pose_at (replicate 150 x0)"
  shows "\<exists>si. analyze_limb_movements a = Inr si \<and> \<not> si_seizure_detected si"
proof -
  have bs: "buffer_size a = 150" and fr: "frequency_range a = (3, 10)"
    and mt: "magnitude_threshold a = 0.3" and lm: "affected_limbs_min a = 2"
    using dt by (simp_all add: default_tuned_def)
  have buf': "map ss_pose (buffer (seizure_pose_buffer a))
              = map ex_pose_at (replicate 150 x0 @ replicate 0 x0)"
    using buf by simp
  have ex: "\<And>nm idxs. (nm, idxs) \<in> set limbs \<Longrightarrow>
              extract_trajectories a idxs = Some (jump_track 150 0 x0 x0)"
    by (rule extract_trajectories_ex[OF bs _ buf']) simp
  obtain f where f: "fft_analysis a (jump_track 150 0 x0 x0) =
      Inr \<lparr>is_seizure_pattern = False, fft_frequency = f, fft_magnitude = 0\<rparr>"
    using fft_analysis_still[OF fr mt] by blast
  have e1: "extract_trajectories a [11, 13, 15] = Some (jump_track 150 0 x0 x0)"
    and e2: "extract_trajectories a [12, 14, 16] = Some (jump_track 150 0 x0 x0)"
    and e3: "extract_trajectories a [23, 25, 27] = Some (jump_track 150 0 x0 x0)"
    and e4: "extract_trajectories a [24, 26, 28] = Some (jump_track 150 0 x0 x0)"
    by (rule ex[of "''left_arm''"], simp add: limbs_def,
        rule ex[of "''right_arm''"], simp add: limbs_def,
        rule ex[of "''left_leg''"], simp add: limbs_def,
        rule ex[of "''right_leg''"], simp add: limbs_def)
  have "limb_loop a limbs ([], 0, 0) = Inr ([], 0, 0)"
    by (simp add: limbs_def e1 e2 e3 e4 f)
  then show ?thesis
    by (auto simp: analyze_limb_movements_def mt lm)
qed

lemma buffered_fields:
  "enabled (seizure_buffered a md p) = enabled a"
  "default_tuned (seizure_buffered a md p) = default_tuned a"
  "buffer_size (seizure_buffered a md p) = buffer_size a"
  "maxlen (seizure_pose_buffer (seizure_buffered a md p)) = maxlen (seizure_pose_buffer a)"
  "seizure_start_time (seizure_buffered a md p) = seizure_start_time a"
  "seizure_last_event_time (seizure_buffered a md p) = seizure_last_event_time a"
  "seizure_event_cooldown (seizure_buffered a md p) = seizure_event_cooldown a"
  by (simp_all add: seizure_buffered_def default_tuned_def add_def)

lemma buffered_poses:
  assumes "length (poses_held a) \<le> maxlen (seizure_pose_buffer a)"
  shows "poses_held (seizure_buffered a md p)
         = drop (Suc (length (poses_held a)) - maxlen (seizure_pose_buffer a)) (poses_held a @ [p])"
  using assms
  by (simp add: poses_held_def seizure_buffered_def add_def deque_append_eq flip: drop_map)

lemma absorb_fields:
  "enabled (absorb a mds) = enabled a"
  "default_tuned (absorb a mds) = default_tuned a"
  "buffer_size (absorb a mds) = buffer_size a"
  "maxlen (seizure_pose_buffer (absorb a mds)) = maxlen (seizure_pose_buffer a)"
  "seizure_start_time (absorb a mds) = seizure_start_time a"
  "seizure_last_event_time (absorb a mds) = seizure_last_event_time a"
  "seizure_event_cooldown (absorb a mds) = seizure_event_cooldown a"
  by (induction mds arbitrary: a; simp add: buffered_fields)+

lemma absorb_poses:
  assumes "length (poses_held a) \<le> maxlen (seizure_pose_buffer a)"
  shows "poses_held (absorb a mds)
         = drop (length (poses_held a) + length mds - maxlen (seizure_pose_buffer a))
             (poses_held a @ map (\<lambda>md. the (first_pose md)) mds)"
  using assms
proof (induction mds arbitrary: a)
  case Nil
  then show ?case by simp
next
  case (Cons md mds)
  let ?a = "seizure_buffered a md (the (first_pose md))"
  let ?c = "maxlen (seizure_pose_buffer a)"
  have ph: "poses_held ?a = drop (Suc (length (poses_held a)) - ?c) (poses_held a @ [the (first_pose md)])"
    by (rule buffered_poses[OF Cons.prems])
  have le: "length (poses_held ?a) \<le> maxlen (seizure_pose_buffer ?a)"
    using Cons.prems by (simp add: ph buffered_fields)
  have "poses_held (absorb ?a mds)
        = drop (length (poses_held ?a) + length mds - ?c)
            (poses_held ?a @ map (\<lambda>md. the (first_pose md)) mds)"
    using Cons.IH[OF le] by (simp add: buffered_fields)
  also have "\<dots> = drop (length (poses_held a) + length (md # mds) - ?c)
            (poses_held a @ map (\<lambda>md. the (first_pose md)) (md # mds))"
  proof (cases "Suc (length (poses_held a)) \<le> ?c")
    case True
    then show ?thesis by (simp add: ph)
  next
    case False
    with Cons.prems have full: "length (poses_held a) = ?c" by simp
    show ?thesis
    proof (cases "poses_held a")
      case Nil
      with full show ?thesis by (simp add: ph)
    next
      case (Cons y ys)
      with full show ?thesis by (simp add: ph)
    qed
  qed
  finally show ?case by simp
qed

lemma run_buffering:
  assumes "enabled a" "\<forall>md\<in>set mds. first_pose md \<noteq> None"
    and "maxlen (seizure_pose_buffer a) = buffer_size a"
    and "length (poses_held a) + length mds < buffer_size a"
  shows "seizure_run env a w mds = Inr (replicate (length mds) None, absorb a mds, w)"
  using assms
proof (induction mds arbitrary: a)
  case Nil
  then show ?case by simp
next
  case (Cons md mds)
  then obtain p where p: "first_pose md = Some p" by auto
  let ?a = "seizure_buffered a md p"
  have le: "length (poses_held a) \<le> maxlen (seizure_pose_buffer a)"
    using Cons.prems by simp
  have ph: "length (poses_held ?a) = Suc (length (poses_held a))"
    using Cons.prems by (simp add: buffered_poses[OF le])
  have "len (seizure_pose_buffer ?a) < buffer_size a"
    using ph Cons.prems by (simp add: len_def poses_held_def)
  then have step: "SeizureDetectionAgent_detect env a w [] md = Inr (None, ?a, w)"
    using Cons.prems(1) p by (intro detect_buffering)
  have "seizure_run env ?a w mds = Inr (replicate (length mds) None, absorb ?a mds, w)"
    using Cons.prems by (intro Cons.IH) (simp_all add: buffered_fields ph)
  then show ?case by (simp add: step p)
qed

lemma run_cooldown:
  assumes "enabled a" "\<forall>md\<in>set mds. first_pose md \<noteq> None"
    and "maxlen (seizure_pose_buffer a) = buffer_size a" "0 < buffer_size a"
    and "length (poses_held a) = buffer_size a"
    and "\<forall>i<length mds. clock env (w + i) - seizure_last_event_time a < seizure_event_cooldown a"
  shows "seizure_run env a w mds = Inr (replicate (length mds) None, absorb a mds, w + length mds)"
  using assms
proof (induction mds arbitrary: a w)
  case Nil
  then show ?case by simp
next
  case (Cons md mds)
  then obtain p where p: "first_pose md = Some p" by auto
  let ?a = "seizure_buffered a md p"
  have le: "length (poses_held a) \<le> maxlen (seizure_pose_buffer a)"
    using Cons.prems by simp
  have ph: "length (poses_held ?a) = buffer_size a"
    using Cons.prems by (simp add: buffered_poses[OF le])
  have full: "\<not> len (seizure_pose_buffer ?a) < buffer_size a"
    using ph by (simp add: len_def poses_held_def)
  have cool: "clock env w - seizure_last_event_time a < seizure_event_cooldown a"
    using Cons.prems(6) by auto
  have step: "SeizureDetectionAgent_detect env a w [] md = Inr (None, ?a, Suc w)"
    using Cons.prems(1) p full cool by (intro detect_cooldown)
  have later: "\<forall>i<length mds. clock env (Suc w + i) - seizure_last_event_time ?a
                 < seizure_event_cooldown ?a"
  proof (intro allI impI)
    fix i assume "i < length mds"
    then have "Suc i < length (md # mds)" by simp
    with Cons.prems(6) have "clock env (w + Suc i) - seizure_last_event_time a
        < seizure_event_cooldown a" by blast
    then show "clock env (Suc w + i) - seizure_last_event_time ?a < seizure_event_cooldown ?a"
      by (simp add: buffered_fields)
  qed
  have "seizure_run env ?a (Suc w) mds
        = Inr (replicate (length mds) None, absorb ?a mds, Suc w + length mds)"
    using Cons.prems later by (intro Cons.IH) (simp_all add: buffered_fields ph)
  then show ?case by (simp add: step p)
qed

lemma run_append:
  "seizure_run env a w (xs @ ys) =
     (case seizure_run env a w xs of
        Inl e \<Rightarrow> Inl e
      | Inr (o1, a1, w1) \<Rightarrow>
          (case seizure_run env a1 w1 ys of
             Inl e \<Rightarrow> Inl e
           | Inr (o2, a2, w2) \<Rightarrow> Inr (o1 @ o2, a2, w2)))"
  by (induction xs arbitrary: a w) (auto split: sum.splits)

lemma first_pose_ex [simp]: "first_pose (ex_seizure_frame i t px) = Some (ex_pose_at px)"
  by (simp add: first_pose_def ex_seizure_frame_def)

lemma poses_held_upd [simp]:
  "poses_held (a\<lparr>seizure_start_time := s\<rparr>) = poses_held a"
  "poses_held (a\<lparr>seizure_last_event_time := t\<rparr>) = poses_held a"
  by (simp_all add: poses_held_def)

lemma default_tuned_upd [simp]:
  "default_tuned (a\<lparr>seizure_start_time := s\<rparr>) = default_tuned a"
  "default_tuned (a\<lparr>seizure_last_event_time := t\<rparr>) = default_tuned a"
  by (simp_all add: default_tuned_def)

lemma init_facts:
  "enabled ex_seizure_init" "default_tuned ex_seizure_init" "poses_held ex_seizure_init = []"
  "seizure_start_time ex_seizure_init = None" "seizure_last_event_time ex_seizure_init = 0"
  by (simp_all add: ex_seizure_init_def SeizureDetectionAgent_init_def SEIZURE_DETECTION_CONFIG_def
      config_get_def default_tuned_def poses_held_def TemporalBuffer_init_def)

lemma tuned_D:
  assumes "default_tuned a"
  shows "buffer_size a = 150" "maxlen (seizure_pose_buffer a) = 150"
    "seizure_event_cooldown a = 10" "duration_threshold a = 5"
  using assms by (simp_all add: default_tuned_def)

lemma resting_facts:
  "enabled ex_after_resting" "default_tuned ex_after_resting"
  "poses_held ex_after_resting = replicate 149 (ex_pose_at 0)"
  "seizure_start_time ex_after_resting = None" "seizure_last_event_time ex_after_resting = 0"
proof -
  have le: "length (poses_held ex_seizure_init) \<le> maxlen (seizure_pose_buffer ex_seizure_init)"
    by (simp add: init_facts)
  show "poses_held ex_after_resting = replicate 149 (ex_pose_at 0)"
    unfolding ex_after_resting_def absorb_poses[OF le]
    by (simp add: init_facts tuned_D[OF init_facts(2)] ex_resting_def o_def map_replicate_const)
qed (simp_all add: ex_after_resting_def absorb_fields init_facts)

lemma run_resting:
  "seizure_run ex_seizure_world ex_seizure_init 0 ex_resting
   = Inr (replicate 149 None, ex_after_resting, 0)"
proof -
  have "seizure_run ex_seizure_world ex_seizure_init 0 ex_resting
        = Inr (replicate (length ex_resting) None, absorb ex_seizure_init ex_resting, 0)"
    by (rule run_buffering)
      (auto simp: init_facts tuned_D[OF init_facts(2)] ex_resting_def)
  then show ?thesis by (simp add: ex_after_resting_def ex_resting_def)
qed

lemma len_poses: "len (seizure_pose_buffer a) = length (poses_held a)"
  by (simp add: len_def poses_held_def)

lemma analyze_jump_held:
  assumes "default_tuned a" "0 < m" "0 < n" "m + n = 150" "\<bar>x1 - x0\<bar> = 30"
    and "poses_held a = replicate m (ex_pose_at x0) @ replicate n (ex_pose_at x1)"
  shows "\<exists>si. analyze_limb_movements a = Inr si \<and> si_seizure_detected si"
  using assms(6) by (intro analyze_jump[OF assms(1-5)]) (simp add: poses_held_def)

lemma analyze_still_held:
  assumes "default_tuned a" "poses_held a = replicate 150 (ex_pose_at x0)"
  shows "\<exists>si. analyze_limb_movements a = Inr si \<and> \<not> si_seizure_detected si"
  using assms(2) by (intro analyze_still[OF assms(1)]) (simp add: poses_held_def)

lemma step_jerk:
  "SeizureDetectionAgent_detect ex_seizure_world ex_after_resting 0 [] ex_jerk
   = Inr (None, ex_after_jerk, 3)"
proof -
  let ?b = "seizure_buffered ex_after_resting ex_jerk (ex_pose_at 30)"
  note t = tuned_D[OF resting_facts(2)]
  have fp: "first_pose ex_jerk = Some (ex_pose_at 30)" by (simp add: ex_jerk_def)
  have ph: "poses_held ?b = replicate 149 (ex_pose_at 0) @ replicate 1 (ex_pose_at 30)"
    by (subst buffered_poses) (simp_all add: resting_facts t)
  have ev: "evaluates_condition ex_seizure_world ex_after_resting 0 ex_jerk"
    by (simp add: evaluates_condition_def fp resting_facts len_poses ph t ex_seizure_world_def)
  obtain si where si: "analyze_limb_movements ?b = Inr si" "si_seizure_detected si"
    using analyze_jump_held[OF _ _ _ _ _ ph] by (auto simp: buffered_fields resting_facts)
  show ?thesis
    unfolding detect_evaluated[OF ev fp]
    by (simp add: si resting_facts t ex_seizure_world_def ex_after_jerk_def)
qed

lemma jerk_facts:
  "enabled ex_after_jerk" "default_tuned ex_after_jerk"
  "poses_held ex_after_jerk = replicate 149 (ex_pose_at 0) @ [ex_pose_at 30]"
  "seizure_start_time ex_after_jerk = Some 1000" "seizure_last_event_time ex_after_jerk = 0"
proof -
  show "poses_held ex_after_jerk = replicate 149 (ex_pose_at 0) @ [ex_pose_at 30]"
    unfolding ex_after_jerk_def poses_held_upd
    by (subst buffered_poses) (simp_all add: resting_facts tuned_D[OF resting_facts(2)])
qed (simp_all add: ex_after_jerk_def buffered_fields resting_facts)

lemma step_held:
  "\<exists>ev. SeizureDetectionAgent_detect ex_seizure_world ex_after_jerk 3 [] ex_held
        = Inr (Some ev, ex_after_held, 6)"
proof -
  let ?b = "seizure_buffered ex_after_jerk ex_held (ex_pose_at 30)"
  note t = tuned_D[OF jerk_facts(2)]
  have fp: "first_pose ex_held = Some (ex_pose_at 30)" by (simp add: ex_held_def)
  have ph: "poses_held ?b = replicate 148 (ex_pose_at 0) @ replicate 2 (ex_pose_at 30)"
    by (subst buffered_poses) (simp_all add: jerk_facts t numeral_2_eq_2)
  have ev: "evaluates_condition ex_seizure_world ex_after_jerk 3 ex_held"
    by (simp add: evaluates_condition_def fp jerk_facts len_poses ph t ex_seizure_world_def)
  obtain si where si: "analyze_limb_movements ?b = Inr si" "si_seizure_detected si"
    using analyze_jump_held[OF _ _ _ _ _ ph] by (auto simp: buffered_fields jerk_facts)
  show ?thesis
    unfolding detect_evaluated[OF ev fp]
    by (simp add: si jerk_facts t ex_seizure_world_def ex_after_held_def)
qed

lemma held_facts:
  "enabled ex_after_held" "default_tuned ex_after_held"
  "poses_held ex_after_held = replicate 148 (ex_pose_at 0) @ replicate 2 (ex_pose_at 30)"
  "seizure_start_time ex_after_held = Some 1000" "seizure_last_event_time ex_after_held = 1006"
proof -
  show "poses_held ex_after_held = replicate 148 (ex_pose_at 0) @ replicate 2 (ex_pose_at 30)"
    unfolding ex_after_held_def poses_held_upd
    by (subst buffered_poses) (simp_all add: jerk_facts tuned_D[OF jerk_facts(2)] numeral_2_eq_2)
qed (simp_all add: ex_after_held_def buffered_fields jerk_facts)

lemma run_settled:
  "seizure_run ex_seizure_world ex_after_held 6 ex_settled
   = Inr (replicate 148 None, ex_after_settled, 154)"
proof -
  note t = tuned_D[OF held_facts(2)]
  have "seizure_run ex_seizure_world ex_after_held 6 ex_settled
        = Inr (replicate (length ex_settled) None, absorb ex_after_held ex_settled,
               6 + length ex_settled)"
    by (rule run_cooldown)
      (auto simp: held_facts t ex_settled_def ex_seizure_world_def)
  then show ?thesis by (simp add: ex_after_settled_def ex_settled_def)
qed

lemma settled_facts:
  "enabled ex_after_settled" "default_tuned ex_after_settled"
  "poses_held ex_after_settled = replicate 150 (ex_pose_at 30)"
  "seizure_start_time ex_after_settled = Some 1000"
  "seizure_last_event_time ex_after_settled = 1006"
proof -
  have le: "length (poses_held ex_after_held) \<le> maxlen (seizure_pose_buffer ex_after_held)"
    by (simp add: held_facts tuned_D[OF held_facts(2)])
  have "replicate 2 (ex_pose_at 30) @ replicate 148 (ex_pose_at 30) = replicate 150 (ex_pose_at 30)"
    by (simp flip: replicate_add)
  then show "poses_held ex_after_settled = replicate 150 (ex_pose_at 30)"
    unfolding ex_after_settled_def absorb_poses[OF le]
    by (simp add: held_facts tuned_D[OF held_facts(2)] ex_settled_def o_def map_replicate_const)
qed (simp_all add: ex_after_settled_def absorb_fields held_facts)

lemma settled_no_seizure: "\<not> seizure_condition ex_after_settled"
  using analyze_still_held[OF settled_facts(2,3)] by (auto simp: seizure_condition_def)

lemma step_return:
  "\<exists>ev a'. SeizureDetectionAgent_detect ex_seizure_world ex_after_settled 154 [] ex_return
        = Inr (Some ev, a', 157)"
proof -
  let ?b = "seizure_buffered ex_after_settled ex_return (ex_pose_at 0)"
  note t = tuned_D[OF settled_facts(2)]
  have fp: "first_pose ex_return = Some (ex_pose_at 0)" by (simp add: ex_return_def)
  have ph: "poses_held ?b = replicate 149 (ex_pose_at 30) @ replicate 1 (ex_pose_at 0)"
    by (subst buffered_poses) (simp_all add: settled_facts t)
  have ev: "evaluates_condition ex_seizure_world ex_after_settled 154 ex_return"
    by (simp add: evaluates_condition_def fp settled_facts len_poses ph t ex_seizure_world_def)
  obtain si where si: "analyze_limb_movements ?b = Inr si" "si_seizure_detected si"
    using analyze_jump_held[OF _ _ _ _ _ ph] by (auto simp: buffered_fields settled_facts)
  show ?thesis
    unfolding detect_evaluated[OF ev fp]
    by (simp add: si settled_facts t ex_seizure_world_def)
qed

lemma run_before_return:
  "\<exists>outs. seizure_run ex_seizure_world ex_seizure_init 0 ex_prelude
           = Inr (outs, ex_after_settled, 154)"
proof -
  obtain ev where "SeizureDetectionAgent_detect ex_seizure_world ex_after_jerk 3 [] ex_held
        = Inr (Some ev, ex_after_held, 6)"
    using step_held by blast
  then show ?thesis
    by (simp add: ex_prelude_def run_append run_resting step_jerk run_settled)
qed

lemma run_with_return:
  "\<exists>outs ev a'. seizure_run ex_seizure_world ex_seizure_init 0 (ex_prelude @ [ex_return])
           = Inr (outs @ [Some ev], a', 157)"
proof -
  obtain outs where 1: "seizure_run ex_seizure_world ex_seizure_init 0 ex_prelude
           = Inr (outs, ex_after_settled, 154)"
    using run_before_return by blast
  obtain ev a' where 2: "SeizureDetectionAgent_detect ex_seizure_world ex_after_settled 154 []
      ex_return = Inr (Some ev, a', 157)"
    using step_return by blast
  show ?thesis
    by (simp add: run_append 1 2)
qed

text \<open>
  Claim C6, as worded, fails on the concrete run. On its last frame an event is
  returned (with a reported duration of 17 s), although on the frame before the
  window held 150 equal poses and the per-frame condition was false: that frame fell
  into the cooldown, where the condition is not evaluated and the episode start is
  not reset.
\<close>

theorem seizure_persistence_counterexample:
  "\<not> claimed_seizure_persistence ex_seizure_world ex_seizure_init 0 (ex_prelude @ [ex_return])"
proof
  let ?all = "ex_prelude @ [ex_return]"
  assume c: "claimed_seizure_persistence ex_seizure_world ex_seizure_init 0 ?all"
  have len: "length ex_prelude = 299"
    by (simp add: ex_prelude_def ex_resting_def ex_settled_def)
  have "event_at_last ex_seizure_world ex_seizure_init 0 ?all"
    using run_with_return by (auto simp: event_at_last_def)
  with c obtain j where j: "j < length ?all"
    and held: "\<And>m. j \<le> m \<Longrightarrow> m < length ?all \<Longrightarrow>
                 condition_after ex_seizure_world ex_seizure_init 0 (take (Suc m) ?all)"
    and late: "timestamp (last ?all) - timestamp (?all ! j)
                 > duration_threshold ex_seizure_init"
    unfolding claimed_seizure_persistence_def by blast
  show False
  proof (cases "j = 299")
    case True
    then have "?all ! j = last ?all"
      using len by (simp add: nth_append)
    with late show False
      using tuned_D[OF init_facts(2)] by simp
  next
    case False
    with j len have "j \<le> 298" "298 < length ?all" by simp_all
    from held[OF this] have "condition_after ex_seizure_world ex_seizure_init 0 ex_prelude"
      using len by simp
    then show False
      using run_before_return settled_no_seizure by (auto simp: condition_after_def)
  qed
qed

lemma limb_loop_cong:
  assumes "\<And>idxs. extract_trajectories b idxs = extract_trajectories a idxs"
    and "\<And>tr. fft_analysis b tr = fft_analysis a tr"
  shows "limb_loop b ls acc = limb_loop a ls acc"
proof (induction ls arbitrary: acc)
  case Nil
  then show ?case by simp
next
  case (Cons l ls)
  obtain nm idxs where l: "l = (nm, idxs)" by (cases l)
  obtain af mm df where acc: "acc = (af, mm, df)" by (cases acc)
  show ?case
    by (simp add: l acc assms Cons.IH split: option.splits sum.splits)
qed

lemma analyze_upd:
  assumes "buffer (seizure_pose_buffer b) = buffer (seizure_pose_buffer a)"
    "buffer_size b = buffer_size a" "frequency_range b = frequency_range a"
    "magnitude_threshold b = magnitude_threshold a" "affected_limbs_min b = affected_limbs_min a"
  shows "analyze_limb_movements b = analyze_limb_movements a"
proof -
  have ll: "\<And>acc. limb_loop b limbs acc = limb_loop a limbs acc"
    by (rule limb_loop_cong)
      (simp_all add: extract_trajectories_def fft_analysis_def Let_def assms
        cong: option.case_cong)
  show ?thesis
    by (auto simp: analyze_limb_movements_def ll assms split: sum.splits prod.splits)
qed

lemma seizure_condition_upd:
  "seizure_condition (a\<lparr>seizure_start_time := s\<rparr>) = seizure_condition a"
  "seizure_condition (a\<lparr>seizure_start_time := s, seizure_last_event_time := t\<rparr>)
     = seizure_condition a"
proof -
  have 1: "analyze_limb_movements (a\<lparr>seizure_start_time := s\<rparr>) = analyze_limb_movements a"
    by (rule analyze_upd) simp_all
  have 2: "analyze_limb_movements (a\<lparr>seizure_start_time := s, seizure_last_event_time := t\<rparr>)
           = analyze_limb_movements a"
    by (rule analyze_upd) simp_all
  show "seizure_condition (a\<lparr>seizure_start_time := s\<rparr>) = seizure_condition a"
    unfolding seizure_condition_def 1 ..
  show "seizure_condition (a\<lparr>seizure_start_time := s, seizure_last_event_time := t\<rparr>)
     = seizure_condition a"
    unfolding seizure_condition_def 2 ..
qed

text \<open>
  Claim C6, amended. A detect call that does not evaluate the condition (agent
  disabled, no pose, window not full, cooldown) returns no event and leaves the
  episode start as it is. A call that evaluates it false resets the episode start to
  \<open>None\<close> and returns no event. A call that evaluates it true keeps an open episode
  start, or opens one at the clock read, and returns an event exactly when the clock
  read after that is more than the duration threshold later than the episode start.
\<close>

theorem seizure_emission_rule:
  assumes "SeizureDetectionAgent_detect env a w fr md = Inr (out, a', w')"
  shows "(if evaluates_condition env a w md
          then (if seizure_condition a'
                then seizure_start_time a' = Some (episode_start env a w)
                     \<and> (out \<noteq> None) =
                         (clock env (duration_read a w) - episode_start env a w
                            > duration_threshold a)
                else seizure_start_time a' = None \<and> out = None)
          else seizure_start_time a' = seizure_start_time a \<and> out = None)"
proof (cases "evaluates_condition env a w md")
  case False
  then show ?thesis
    using detect_not_evaluated[OF False, of fr] assms by auto
next
  case True
  then obtain p where p: "first_pose md = Some p"
    by (auto simp: evaluates_condition_def split: option.splits)
  obtain si where si: "analyze_limb_movements (seizure_buffered a md p) = Inr si"
    using assms unfolding detect_evaluated[OF True p] by (auto split: sum.splits)
  have sc: "seizure_condition (seizure_buffered a md p) = si_seizure_detected si"
    by (simp add: seizure_condition_def si)
  show ?thesis
    using assms True unfolding detect_evaluated[OF True p]
    by (auto simp: si sc seizure_condition_upd Let_def episode_start_def duration_read_def
        buffered_fields split: if_splits option.splits)
qed

text \<open>
  The second jerk frame of the concrete run: the condition is evaluated and true, the
  episode opened at 1000 is kept, and 1006 - 1000 exceeds the threshold of 5 s.
\<close>

theorem seizure_emission_rule_witness:
  "evaluates_condition ex_seizure_world ex_after_jerk 3 ex_held
   \<and> seizure_condition ex_after_held
   \<and> seizure_start_time ex_after_held = Some 1000
   \<and> clock ex_seizure_world 4 - 1000 > duration_threshold ex_after_jerk
   \<and> (\<exists>ev. SeizureDetectionAgent_detect ex_seizure_world ex_after_jerk 3 [] ex_held
             = Inr (Some ev, ex_after_held, 6))"
proof -
  obtain ev where d: "SeizureDetectionAgent_detect ex_seizure_world ex_after_jerk 3 [] ex_held
        = Inr (Some ev, ex_after_held, 6)"
    using step_held by blast
  have ne: "seizure_start_time ex_after_held \<noteq> seizure_start_time ex_after_jerk \<or> Some ev \<noteq> None"
    by simp
  show ?thesis
    using seizure_emission_rule[OF d] d ne
    by (auto simp: episode_start_def duration_read_def jerk_facts held_facts split: if_splits)
qed

lemma extract_frames_eq:
  "extract_frames buf idxs =
     (if \<forall>s\<in>set buf. visible_positions (ss_pose s) idxs \<noteq> []
      then Some (map (\<lambda>s. np_mean_axis0 (visible_positions (ss_pose s) idxs)) buf)
      else None)"
  by (induction buf) (auto simp: Let_def)

lemma visible_occluded:
  "visible_positions ex_occluded_pose [11, 13, 15] = [(30, 300), (60, 300)]"
  by (simp add: visible_positions_def ex_occluded_pose_def ex_kp_def nth_append)

lemma visible_hidden: "visible_positions ex_hidden_pose [11, 13, 15] = []"
  by (simp add: visible_positions_def ex_hidden_pose_def ex_kp_def)

lemma watching_buffer:
  "buffer (seizure_pose_buffer (ex_watching p)) = ex_window p"
  "buffer_size (ex_watching p) = 150"
  "length (ex_window p) = 150" "ex_window p \<noteq> []"
  "\<And>s. s \<in> set (ex_window p) \<Longrightarrow> ss_pose s = p"
  by (auto simp: ex_watching_def SeizureDetectionAgent_init_def ex_window_def)

text \<open>
  Claim C3, as worded, fails: with the left shoulder occluded in every frame, the
  left arm is not excluded. Its trajectory is the mean of elbow and wrist.
\<close>

theorem occluded_keypoint_counterexample:
  "extract_trajectories (ex_watching ex_occluded_pose) [11, 13, 15]
     = Some (replicate 150 (45, 300))
   \<and> claimed_limb_trajectories (buffer (seizure_pose_buffer (ex_watching ex_occluded_pose)))
        [11, 13, 15] = None"
proof -
  have v: "\<And>s. s \<in> set (ex_window ex_occluded_pose) \<Longrightarrow>
              visible_positions (ss_pose s) [11, 13, 15] = [(30, 300), (60, 300)]"
    by (simp add: watching_buffer(5) visible_occluded)
  have "map (\<lambda>s. np_mean_axis0 (visible_positions (ss_pose s) [11, 13, 15]))
          (ex_window ex_occluded_pose)
        = map (\<lambda>s. (45, 300)) (ex_window ex_occluded_pose)"
    by (rule map_cong) (simp_all add: v np_mean_axis0_def)
  also have "\<dots> = replicate 150 (45, 300)"
    by (simp add: map_replicate_const watching_buffer)
  finally have m: "map (\<lambda>s. np_mean_axis0 (visible_positions (ss_pose s) [11, 13, 15]))
          (ex_window ex_occluded_pose) = replicate 150 (45, 300)" .
  have 1: "extract_trajectories (ex_watching ex_occluded_pose) [11, 13, 15]
     = Some (replicate 150 (45, 300))"
    by (simp add: extract_trajectories_def extract_frames_eq watching_buffer v m
        visible_occluded)
  have s: "hd (ex_window ex_occluded_pose) \<in> set (ex_window ex_occluded_pose)"
    by (rule hd_in_set) (rule watching_buffer(4))
  define s where "s = hd (ex_window ex_occluded_pose)"
  note s = s[folded s_def]
  have "visibility (keypoints (ss_pose s) ! 11) < 0.5"
    using watching_buffer(5)[OF s]
    by (simp add: ex_occluded_pose_def ex_kp_def nth_append)
  then have 2: "claimed_limb_trajectories (ex_window ex_occluded_pose) [11, 13, 15] = None"
    using s unfolding claimed_limb_trajectories_def by auto
  show ?thesis using 1 2 by (simp add: watching_buffer)
qed

text \<open>
  Claim C3, amended. The sample of a frame is the mean position of those keypoints of
  the limb whose visibility is above 0.5; a limb has trajectories exactly when every
  frame of the window has at least one such keypoint and the window holds
  \<open>buffer_size\<close> frames; a limb without trajectories is skipped by the loop over
  the limbs, so no Fourier analysis is run on it.
\<close>

theorem extract_trajectories_visible_mean:
  "extract_trajectories a keypoint_indices =
     (if (\<forall>s\<in>set (buffer (seizure_pose_buffer a)).
            visible_positions (ss_pose s) keypoint_indices \<noteq> [])
         \<and> buffer_size a \<le> length (buffer (seizure_pose_buffer a))
      then Some (map (\<lambda>s. np_mean_axis0 (visible_positions (ss_pose s) keypoint_indices))
                   (buffer (seizure_pose_buffer a)))
      else None)
   \<and> (extract_trajectories a keypoint_indices = None \<longrightarrow>
        limb_loop a ((limb_name, keypoint_indices) # rest) acc = limb_loop a rest acc)"
proof -
  obtain af mm df where acc: "acc = (af, mm, df)" by (cases acc)
  show ?thesis
    by (auto simp: extract_trajectories_def extract_frames_eq acc)
qed

text \<open>
  Two windows: with an occluded shoulder the arm keeps its trajectory (the mean of
  the two visible keypoints in each frame); with the whole arm occluded the arm has
  none and the loop passes over it.
\<close>

theorem extract_trajectories_visible_mean_witness:
  "extract_trajectories (ex_watching ex_occluded_pose) [11, 13, 15]
     = Some (map (\<lambda>s. np_mean_axis0 [(30, 300), (60, 300)]) (ex_window ex_occluded_pose))
   \<and> extract_trajectories (ex_watching ex_hidden_pose) [11, 13, 15] = None
   \<and> limb_loop (ex_watching ex_hidden_pose) [(''left_arm'', [11, 13, 15])] ([], 0, 0)
       = Inr ([], 0, 0)"
proof -
  have v: "\<forall>s\<in>set (ex_window ex_occluded_pose).
              visible_positions (ss_pose s) [11, 13, 15] = [(30, 300), (60, 300)]"
    by (simp add: watching_buffer(5) visible_occluded)
  have h: "\<forall>s\<in>set (ex_window ex_hidden_pose). visible_positions (ss_pose s) [11, 13, 15] = []"
    by (simp add: watching_buffer(5) visible_hidden)
  have 1: "extract_trajectories (ex_watching ex_occluded_pose) [11, 13, 15]
     = Some (map (\<lambda>s. np_mean_axis0 [(30, 300), (60, 300)]) (ex_window ex_occluded_pose))"
    using extract_trajectories_visible_mean[of "ex_watching ex_occluded_pose" "[11, 13, 15]"
        "''left_arm''" "[]" "([], 0, 0)"] v
    by (simp add: watching_buffer cong: map_cong)
  have 2: "extract_trajectories (ex_watching ex_hidden_pose) [11, 13, 15] = None"
    using extract_trajectories_visible_mean[of "ex_watching ex_hidden_pose" "[11, 13, 15]"
        "''left_arm''" "[]" "([], 0, 0)"] h watching_buffer(4)[of ex_hidden_pose]
    by (auto simp: watching_buffer)
  have 3: "limb_loop (ex_watching ex_hidden_pose) [(''left_arm'', [11, 13, 15])] ([], 0, 0)
       = Inr ([], 0, 0)"
    using extract_trajectories_visible_mean[of "ex_watching ex_hidden_pose" "[11, 13, 15]"
        "''left_arm''" "[]" "([], 0, 0)"] 2
    by simp
  show ?thesis using 1 2 3 by simp
qed

section \<open>Properties of the bed exit agent\<close>

lemma bed_detect_event:
  assumes "BedExitAgent_detect env a w fr md = Inr (Some ev, a', w')"
  shows "current_state a' \<noteq> current_state a
       \<and> current_state a' \<in> set (alert_on_states a)
       \<and> (\<exists>detection rest p. detections md = detection # rest \<and> pose detection = Some p
            \<and> determine_state (a\<lparr>frame_count := frame_count a + 1\<rparr>) (bbox detection) p (height md)
                = Inr (current_state a'))
       \<and> bed_exit_fields ev =
           Some \<lparr>state = current_state a', previous_state = Some (current_state a),
                 transition = True, duration_in_state = 0,
                 event_bed_region = bed_region a,
                 person_bbox = map_option bbox (case detections md of [] \<Rightarrow> None | d # _ \<Rightarrow> Some d)\<rparr>"
  using assms
  by (auto simp: BedExitAgent_detect_def Let_def time_time_def bed_exit_event_def
      bed_exit_fields_def
      split: if_splits option.splits list.splits sum.splits)

lemma bed_detect_alert_states:
  assumes "BedExitAgent_detect env a w fr md = Inr (out, a', w')"
  shows "alert_on_states a' = alert_on_states a"
  using assms
  by (auto simp: BedExitAgent_detect_def Let_def time_time_def calibrate_bed_region_def
      split: if_splits option.splits list.splits sum.splits)

lemma bed_run_entries:
  assumes "bed_exit_run env a w mds = Inr (tr, a', w')"
  shows "\<forall>(out, before, after)\<in>set tr. \<forall>ev. out = Some ev \<longrightarrow>
           after \<noteq> before \<and> after \<in> set (alert_on_states a)
           \<and> (\<exists>f. bed_exit_fields ev = Some f \<and> state f = after
                  \<and> previous_state f = Some before \<and> transition f
                  \<and> duration_in_state f = 0)"
  using assms
proof (induction mds arbitrary: a w tr)
  case Nil
  then show ?case by simp
next
  case (Cons md mds)
  from Cons.prems obtain out a1 w1 tr1 where
    d: "BedExitAgent_detect env a w [] md = Inr (out, a1, w1)"
    and r: "bed_exit_run env a1 w1 mds = Inr (tr1, a', w')"
    and tr: "tr = (out, current_state a, current_state a1) # tr1"
    by (auto split: sum.splits)
  have al: "alert_on_states a1 = alert_on_states a"
    by (rule bed_detect_alert_states[OF d])
  have hd: "\<forall>ev. out = Some ev \<longrightarrow>
           current_state a1 \<noteq> current_state a \<and> current_state a1 \<in> set (alert_on_states a)
           \<and> (\<exists>f. bed_exit_fields ev = Some f \<and> state f = current_state a1
                  \<and> previous_state f = Some (current_state a) \<and> transition f
                  \<and> duration_in_state f = 0)"
  proof (intro allI impI)
    fix ev assume "out = Some ev"
    with d have "BedExitAgent_detect env a w [] md = Inr (Some ev, a1, w1)" by simp
    from bed_detect_event[OF this] show
      "current_state a1 \<noteq> current_state a \<and> current_state a1 \<in> set (alert_on_states a)
           \<and> (\<exists>f. bed_exit_fields ev = Some f \<and> state f = current_state a1
                  \<and> previous_state f = Some (current_state a) \<and> transition f
                  \<and> duration_in_state f = 0)"
      by simp
  qed
  from Cons.IH[OF r] al hd show ?case by (simp add: tr)
qed

lemma filter_le_of_imp:
  assumes "\<forall>x\<in>set xs. P x \<longrightarrow> Q x"
  shows "length (filter P xs) \<le> length (filter Q xs)"
  using assms by (induction xs) auto

text \<open>
  Claim C5. A detect call that returns an event has classified the frame into a state
  that differs from the stored one and belongs to the alert set; the event carries
  the new state, the previous state, the transition flag and a duration of 0. Over
  any run of frames there are at most as many events as calls that changed the stored
  state (a call returns at most one event). The default alert set is STANDING,
  OUT\_OF\_BED.
\<close>

theorem bed_exit_events_on_alert_transitions:
  "(BedExitAgent_detect env a w fr md = Inr (Some ev, a', w') \<longrightarrow>
      current_state a' \<noteq> current_state a
      \<and> current_state a' \<in> set (alert_on_states a)
      \<and> (\<exists>detection rest p. detections md = detection # rest \<and> pose detection = Some p
            \<and> determine_state (a\<lparr>frame_count := frame_count a + 1\<rparr>) (bbox detection) p
                 (height md) = Inr (current_state a'))
      \<and> (\<exists>f. bed_exit_fields ev = Some f \<and> state f = current_state a'
             \<and> previous_state f = Some (current_state a) \<and> transition f
             \<and> duration_in_state f = 0))
   \<and> (bed_exit_run env a w mds = Inr (tr, a'', w'') \<longrightarrow>
        length (filter (\<lambda>(out, before, after). out \<noteq> None) tr)
          \<le> length (filter (\<lambda>(out, before, after). after \<noteq> before) tr))
   \<and> alert_on_states (fst (BedExitAgent_init env w BED_EXIT_CONFIG)) = [''STANDING'', ''OUT_OF_BED'']"
proof (intro conjI impI)
  assume d: "BedExitAgent_detect env a w fr md = Inr (Some ev, a', w')"
  note e = bed_detect_event[OF d]
  from e show "current_state a' \<noteq> current_state a" by simp
  from e show "current_state a' \<in> set (alert_on_states a)" by simp
  from e show "\<exists>detection rest p. detections md = detection # rest \<and> pose detection = Some p
            \<and> determine_state (a\<lparr>frame_count := frame_count a + 1\<rparr>) (bbox detection) p
                 (height md) = Inr (current_state a')" by simp
  from e show "\<exists>f. bed_exit_fields ev = Some f \<and> state f = current_state a'
             \<and> previous_state f = Some (current_state a) \<and> transition f
             \<and> duration_in_state f = 0" by simp
next
  assume r: "bed_exit_run env a w mds = Inr (tr, a'', w'')"
  show "length (filter (\<lambda>(out, before, after). out \<noteq> None) tr)
          \<le> length (filter (\<lambda>(out, before, after). after \<noteq> before) tr)"
    using bed_run_entries[OF r] by (intro filter_le_of_imp) auto
next
  show "alert_on_states (fst (BedExitAgent_init env w BED_EXIT_CONFIG)) = [''STANDING'', ''OUT_OF_BED'']"
    by (simp add: BedExitAgent_init_def BED_EXIT_CONFIG_def config_get_def time_time_def)
qed

lemma ex_determine:
  "bed_region a = Some ex_bed \<Longrightarrow> standing_height_threshold a = 0.6 \<Longrightarrow>
   determine_state a ex_away_bbox ex_upright_pose 720 = Inr ''OUT_OF_BED''"
  by (simp add: determine_state_def ex_upright_pose_def ex_kp_def nth_append arctan2_def
      degrees_def compute_iou_def ex_bed_def ex_away_bbox_def Let_def)

lemma ex_bed_agent_fields:
  "enabled ex_bed_agent" "bed_region ex_bed_agent = Some ex_bed"
  "standing_height_threshold ex_bed_agent = 0.6" "current_state ex_bed_agent = ''IN_BED''"
  "alert_on_states ex_bed_agent = [''STANDING'', ''OUT_OF_BED'']" "frame_count ex_bed_agent = 0"
  by (simp_all add: ex_bed_agent_def BedExitAgent_init_def BED_EXIT_CONFIG_def config_get_def
      time_time_def)

lemma ex_bed_step1:
  "BedExitAgent_detect ex_world ex_bed_agent 1 [] (ex_away_md 1)
   = Inr (Some (bed_exit_event ex_left_bed (ex_away_md 1) ex_away_bbox ''OUT_OF_BED'' ''IN_BED''),
          ex_left_bed, 2)"
  unfolding BedExitAgent_detect_def Let_def
  by (simp add: ex_bed_agent_fields ex_away_md_def ex_determine time_time_def ex_world_def
      ex_left_bed_def)

lemma ex_bed_step2:
  "BedExitAgent_detect ex_world ex_left_bed 2 [] (ex_away_md 2)
   = Inr (None, ex_left_bed\<lparr>frame_count := 2\<rparr>, 2)"
  unfolding BedExitAgent_detect_def Let_def
  by (simp add: ex_bed_agent_fields ex_away_md_def ex_determine ex_left_bed_def)

text \<open>
  A person out of bed: the first frame changes the state from IN\_BED to OUT\_OF\_BED
  and returns an event, the second frame changes nothing and returns none.
\<close>

theorem bed_exit_events_on_alert_transitions_witness:
  "BedExitAgent_detect ex_world ex_bed_agent 1 [] (ex_away_md 1)
     = Inr (Some (bed_exit_event ex_left_bed (ex_away_md 1) ex_away_bbox ''OUT_OF_BED'' ''IN_BED''),
            ex_left_bed, 2)
   \<and> current_state ex_left_bed \<noteq> current_state ex_bed_agent
   \<and> current_state ex_left_bed \<in> set (alert_on_states ex_bed_agent)
   \<and> bed_exit_run ex_world ex_bed_agent 1 [ex_away_md 1, ex_away_md 2]
       = Inr ([(Some (bed_exit_event ex_left_bed (ex_away_md 1) ex_away_bbox ''OUT_OF_BED'' ''IN_BED''),
                ''IN_BED'', ''OUT_OF_BED''),
               (None, ''OUT_OF_BED'', ''OUT_OF_BED'')],
              ex_left_bed\<lparr>frame_count := 2\<rparr>, 2)
   \<and> length (filter (\<lambda>(out, before, after). out \<noteq> None)
         [(Some (bed_exit_event ex_left_bed (ex_away_md 1) ex_away_bbox ''OUT_OF_BED'' ''IN_BED''),
           ''IN_BED'', ''OUT_OF_BED''), (None, ''OUT_OF_BED'', ''OUT_OF_BED'')])
       \<le> length (filter (\<lambda>(out, before, after). after \<noteq> before)
         [(Some (bed_exit_event ex_left_bed (ex_away_md 1) ex_away_bbox ''OUT_OF_BED'' ''IN_BED''),
           ''IN_BED'', ''OUT_OF_BED''), (None, ''OUT_OF_BED'', ''OUT_OF_BED'')])"
proof -
  have run: "bed_exit_run ex_world ex_bed_agent 1 [ex_away_md 1, ex_away_md 2]
       = Inr ([(Some (bed_exit_event ex_left_bed (ex_away_md 1) ex_away_bbox ''OUT_OF_BED'' ''IN_BED''),
                ''IN_BED'', ''OUT_OF_BED''),
               (None, ''OUT_OF_BED'', ''OUT_OF_BED'')],
              ex_left_bed\<lparr>frame_count := 2\<rparr>, 2)"
    by (simp add: ex_bed_step1 ex_bed_step2 ex_bed_agent_fields del: One_nat_def)
      (simp add: ex_left_bed_def)
  show ?thesis
    using bed_exit_events_on_alert_transitions[of ex_world ex_bed_agent 1 "[]" "ex_away_md 1"
        "bed_exit_event ex_left_bed (ex_away_md 1) ex_away_bbox ''OUT_OF_BED'' ''IN_BED''"
        ex_left_bed 2 "[ex_away_md 1, ex_away_md 2]" _ "ex_left_bed\<lparr>frame_count := 2\<rparr>" 2]
      ex_bed_step1 run
    by simp
qed

section \<open>Properties of the vital signs agent\<close>

lemma detect_by_roi:
  "VitalSignsAgent_detect be a fr md =
     (if \<not> enabled a then (None, a)
      else (case face_roi_of fr md of
              None \<Rightarrow> (None, a\<lparr>frame_count := frame_count a + 1\<rparr>)
            | Some face_roi \<Rightarrow> after_roi be a md face_roi))"
proof (cases "enabled a")
  case False
  then show ?thesis by (simp add: VitalSignsAgent_detect_def)
next
  case True
  show ?thesis
  proof (cases "detections md")
    case Nil
    then show ?thesis using True by (simp add: VitalSignsAgent_detect_def face_roi_of_def)
  next
    case (Cons detection rest)
    show ?thesis
    proof (cases "face_bbox detection")
      case None
      then show ?thesis
        using True Cons by (simp add: VitalSignsAgent_detect_def face_roi_of_def)
    next
      case (Some fb)
      show ?thesis
        using True Cons Some
        unfolding VitalSignsAgent_detect_def face_roi_of_def after_roi_def Let_def
        by (simp add: processed_agent_def vitals_valid_def vital_signs_event_def
            split: option.splits)
    qed
  qed
qed

lemma detect_unprocessed:
  assumes "processed_window a fr md = None"
  shows "fst (VitalSignsAgent_detect be a fr md) = None"
    and "last_update_frame (snd (VitalSignsAgent_detect be a fr md)) = last_update_frame a"
    and "rppg_calls (snd (VitalSignsAgent_detect be a fr md)) = rppg_calls a"
  using assms
  by (auto simp: processed_window_def detect_by_roi after_roi_def Let_def
      split: if_splits option.splits)

lemma detect_processed:
  assumes "processed_window a fr md = Some buf"
  shows "VitalSignsAgent_detect be a fr md =
     (case process be (rppg_processor a) buf of
        None \<Rightarrow> (None, processed_agent a buf)
      | Some v \<Rightarrow>
          if vitals_valid a v
          then (Some (vital_signs_event a md v),
                (processed_agent a buf)\<lparr>last_update_frame := frame_count a + 1\<rparr>)
          else (None, processed_agent a buf))"
proof -
  from assms obtain face_roi where en: "enabled a" and roi: "face_roi_of fr md = Some face_roi"
    and buf: "buf = deque_append (window_size a) (face_roi_buffer a) face_roi"
    and iv: "\<not> frame_count a + 1 - last_update_frame a < update_interval a"
    and full: "\<not> length buf < window_size a"
    by (auto simp: processed_window_def Let_def split: if_splits option.splits)
  show ?thesis
    using en iv full by (simp add: detect_by_roi roi after_roi_def Let_def flip: buf)
qed

text \<open>
  Claim C7. A detect call returns an event exactly when it hands a window to the
  processor, the processor returns vital signs, the heart rate and the respiratory
  rate lie in their configured ranges (bounds included) and the signal quality is at
  least the threshold; the defaults are 40 to 180, 8 to 30 and 0.6. In every other
  case the call returns no event. The call has no raising path: the processor turns
  its own exceptions into \<open>None\<close>.
\<close>

theorem vital_signs_emission:
  "fst (VitalSignsAgent_detect be a fr md) =
     (case processed_window a fr md of
        None \<Rightarrow> None
      | Some buf \<Rightarrow>
          (case process be (rppg_processor a) buf of
             None \<Rightarrow> None
           | Some v \<Rightarrow>
               if fst (hr_range a) \<le> vs_heart_rate v \<and> vs_heart_rate v \<le> snd (hr_range a)
                  \<and> fst (rr_range a) \<le> vs_respiratory_rate v
                  \<and> vs_respiratory_rate v \<le> snd (rr_range a)
                  \<and> vs_signal_quality v \<ge> signal_quality_threshold a
               then Some (vital_signs_event a md v) else None))
   \<and> hr_range (VitalSignsAgent_init VITAL_SIGNS_CONFIG) = (40, 180)
   \<and> rr_range (VitalSignsAgent_init VITAL_SIGNS_CONFIG) = (8, 30)
   \<and> signal_quality_threshold (VitalSignsAgent_init VITAL_SIGNS_CONFIG) = 0.6"
proof (cases "processed_window a fr md")
  case None
  then show ?thesis
    by (simp add: detect_unprocessed(1) VitalSignsAgent_init_def VITAL_SIGNS_CONFIG_def
        config_get_def)
next
  case (Some buf)
  show ?thesis
    by (simp add: Some detect_processed[OF Some] VitalSignsAgent_init_def
        VITAL_SIGNS_CONFIG_def config_get_def vitals_valid_def split: option.splits)
qed

lemma due_step:
  assumes "due a" "face_roi_of fr md \<noteq> None"
  shows "processed_window a fr md \<noteq> None"
    and "rppg_calls (snd (VitalSignsAgent_detect be a fr md)) = Suc (rppg_calls a)"
    and "fst (VitalSignsAgent_detect be a fr md) = None \<Longrightarrow>
         due (snd (VitalSignsAgent_detect be a fr md))"
proof -
  obtain roi where roi: "face_roi_of fr md = Some roi" using assms(2) by auto
  let ?buf = "deque_append (window_size a) (face_roi_buffer a) roi"
  have len: "window_size a \<le> length ?buf"
    using assms(1) by (cases "face_roi_buffer a") (auto simp: due_def deque_append_def)
  have pw: "processed_window a fr md = Some ?buf"
    using assms(1) len by (simp add: processed_window_def roi due_def Let_def)
  show "processed_window a fr md \<noteq> None" by (simp add: pw)
  show "rppg_calls (snd (VitalSignsAgent_detect be a fr md)) = Suc (rppg_calls a)"
    by (simp add: detect_processed[OF pw] processed_agent_def split: option.splits)
  show "due (snd (VitalSignsAgent_detect be a fr md))"
    if "fst (VitalSignsAgent_detect be a fr md) = None"
    using that assms(1) len
    by (auto simp: detect_processed[OF pw] processed_agent_def due_def
        split: option.splits if_splits)
qed

lemma discard_due:
  assumes "processed_window a fr md \<noteq> None" "fst (VitalSignsAgent_detect be a fr md) = None"
  shows "due (snd (VitalSignsAgent_detect be a fr md))"
proof -
  obtain buf where pw: "processed_window a fr md = Some buf" using assms(1) by auto
  have "enabled a \<and> \<not> (frame_count a + 1 - last_update_frame a < update_interval a)
        \<and> window_size a \<le> length buf"
    using pw by (auto simp: processed_window_def Let_def split: if_splits option.splits)
  then show ?thesis
    using assms(2)
    by (auto simp: detect_processed[OF pw] processed_agent_def due_def
        split: option.splits if_splits)
qed

lemma due_run:
  assumes "due a" "\<forall>(fr, md)\<in>set rest. face_roi_of fr md \<noteq> None"
    and "\<forall>out\<in>set (butlast (fst (vital_signs_run be a rest))). out = None"
  shows "rppg_calls (snd (vital_signs_run be a rest)) = rppg_calls a + length rest"
  using assms
proof (induction rest arbitrary: a)
  case Nil
  then show ?case by simp
next
  case (Cons x rest)
  obtain fr md where x: "x = (fr, md)" by (cases x)
  obtain out a1 where d: "VitalSignsAgent_detect be a fr md = (out, a1)"
    by (cases "VitalSignsAgent_detect be a fr md")
  obtain outs a2 where r: "vital_signs_run be a1 rest = (outs, a2)"
    by (cases "vital_signs_run be a1 rest")
  have roi: "face_roi_of fr md \<noteq> None" using Cons.prems(2) x by auto
  have calls1: "rppg_calls a1 = Suc (rppg_calls a)"
    using due_step(2)[OF Cons.prems(1) roi, of be] d by simp
  show ?case
  proof (cases rest)
    case Nil
    then show ?thesis using calls1 d x by simp
  next
    case (Cons y ys)
    then have "outs \<noteq> []" using r by (cases y) (auto split: prod.splits)
    then have "out = None"
      using Cons.prems(3) x d r by simp
    then have due1: "due a1"
      using due_step(3)[OF Cons.prems(1) roi, of be] d by simp
    have "\<forall>out\<in>set (butlast (fst (vital_signs_run be a1 rest))). out = None"
      using Cons.prems(3) x d r \<open>outs \<noteq> []\<close> by simp
    from Cons.IH[OF due1 _ this] Cons.prems(2)
    have "rppg_calls (snd (vital_signs_run be a1 rest)) = rppg_calls a1 + length rest" by simp
    then show ?thesis using calls1 x d r by simp
  qed
qed

text \<open>
  Claim C9. A detect call that returns no event leaves \<open>last_update_frame\<close> as it
  was; a call that returns one sets it to the frame counter. After a call that handed
  a window to the processor and returned no event, on any further frames that each
  yield a face crop the processor is called on every frame up to and including the
  first one that returns an event.
\<close>

theorem vital_signs_discard_reprocesses:
  "(fst (VitalSignsAgent_detect be a fr md) = None \<longrightarrow>
      last_update_frame (snd (VitalSignsAgent_detect be a fr md)) = last_update_frame a)
   \<and> (fst (VitalSignsAgent_detect be a fr md) \<noteq> None \<longrightarrow>
      last_update_frame (snd (VitalSignsAgent_detect be a fr md)) = frame_count a + 1)
   \<and> (processed_window a fr md \<noteq> None \<and> fst (VitalSignsAgent_detect be a fr md) = None
       \<and> (\<forall>(fr', md')\<in>set rest. face_roi_of fr' md' \<noteq> None)
       \<and> (\<forall>out\<in>set (butlast (fst (vital_signs_run be
                                     (snd (VitalSignsAgent_detect be a fr md)) rest))).
             out = None)
       \<longrightarrow> rppg_calls (snd (vital_signs_run be (snd (VitalSignsAgent_detect be a fr md)) rest))
             = rppg_calls (snd (VitalSignsAgent_detect be a fr md)) + length rest)"
proof (intro conjI impI)
  assume n: "fst (VitalSignsAgent_detect be a fr md) = None"
  show "last_update_frame (snd (VitalSignsAgent_detect be a fr md)) = last_update_frame a"
  proof (cases "processed_window a fr md")
    case None
    then show ?thesis by (rule detect_unprocessed(2))
  next
    case (Some buf)
    show ?thesis
      using n by (auto simp: detect_processed[OF Some] processed_agent_def
          split: option.splits if_splits)
  qed
next
  assume n: "fst (VitalSignsAgent_detect be a fr md) \<noteq> None"
  show "last_update_frame (snd (VitalSignsAgent_detect be a fr md)) = frame_count a + 1"
  proof (cases "processed_window a fr md")
    case None
    then show ?thesis using n detect_unprocessed(1)[OF None, of be] by simp
  next
    case (Some buf)
    show ?thesis
      using n by (auto simp: detect_processed[OF Some] processed_agent_def
          split: option.splits if_splits)
  qed
next
  assume h: "processed_window a fr md \<noteq> None \<and> fst (VitalSignsAgent_detect be a fr md) = None
       \<and> (\<forall>(fr', md')\<in>set rest. face_roi_of fr' md' \<noteq> None)
       \<and> (\<forall>out\<in>set (butlast (fst (vital_signs_run be
                                     (snd (VitalSignsAgent_detect be a fr md)) rest))).
             out = None)"
  then have "due (snd (VitalSignsAgent_detect be a fr md))"
    by (intro discard_due) simp_all
  from due_run[OF this] h
  show "rppg_calls (snd (vital_signs_run be (snd (VitalSignsAgent_detect be a fr md)) rest))
             = rppg_calls (snd (VitalSignsAgent_detect be a fr md)) + length rest"
    by blast
qed

lemma ex_face_roi: "face_roi_of ex_frame (ex_face_md i) = Some ex_frame"
  by (simp add: face_roi_of_def ex_face_md_def py_int_def shape0_def shape1_def crop_def
      ex_frame_def)

lemma ex_vital_fields:
  "enabled ex_vital_agent" "window_size ex_vital_agent = 2" "update_interval ex_vital_agent = 1"
  "frame_count ex_vital_agent = 1" "last_update_frame ex_vital_agent = 0"
  "face_roi_buffer ex_vital_agent = [ex_frame]" "rppg_calls ex_vital_agent = 0"
  "hr_range ex_vital_agent = (40, 180)" "rr_range ex_vital_agent = (8, 30)"
  "signal_quality_threshold ex_vital_agent = 0.6"
  "rppg_processor ex_vital_agent = \<lparr>algorithm = ''CHROM'', rppg_fps = 30, rppg_window_size = 2\<rparr>"
  by (simp_all add: ex_vital_agent_def VitalSignsAgent_init_def VITAL_SIGNS_CONFIG_def
      config_get_def)

lemma ex_window: "processed_window ex_vital_agent ex_frame (ex_face_md 2) = Some [ex_frame, ex_frame]"
  by (simp add: processed_window_def ex_face_roi ex_vital_fields deque_append_def)

lemma ex_process:
  "length rois = 2 \<Longrightarrow> \<forall>roi\<in>set rois. roi = ex_frame \<Longrightarrow>
   process (ex_backend hr) \<lparr>algorithm = ''CHROM'', rppg_fps = 30, rppg_window_size = 2\<rparr> rois
   = Some \<lparr>vs_heart_rate = hr, vs_respiratory_rate = 15, vs_signal_quality = 0.8,
           vs_hr_confidence = 0.9, vs_rr_confidence = 0.8\<rparr>"
proof -
  assume l: "length rois = 2" and e: "\<forall>roi\<in>set rois. roi = ex_frame"
  have "filter (\<lambda>roi. roi_size roi \<noteq> 0) rois = rois"
    using e by (intro filter_True) (auto simp: roi_size_def ex_frame_def)
  then show ?thesis
    using l by (simp add: process_def extract_rgb_signals_def ex_backend_def)
qed

text \<open>
  The same full window with a reported heart rate of 72 (an event) and of 200 (no
  event).
\<close>

theorem vital_signs_emission_witness:
  "fst (VitalSignsAgent_detect (ex_backend 72) ex_vital_agent ex_frame (ex_face_md 2))
     = Some (vital_signs_event ex_vital_agent (ex_face_md 2)
               \<lparr>vs_heart_rate = 72, vs_respiratory_rate = 15, vs_signal_quality = 0.8,
                vs_hr_confidence = 0.9, vs_rr_confidence = 0.8\<rparr>)
   \<and> fst (VitalSignsAgent_detect (ex_backend 200) ex_vital_agent ex_frame (ex_face_md 2)) = None"
  using vital_signs_emission[of "ex_backend 72" ex_vital_agent ex_frame "ex_face_md 2"]
    vital_signs_emission[of "ex_backend 200" ex_vital_agent ex_frame "ex_face_md 2"]
  by (simp add: ex_window ex_vital_fields ex_process)

lemma ex_steady_step:
  assumes "ex_steady a"
  shows "fst (VitalSignsAgent_detect (ex_backend 200) a ex_frame (ex_face_md i)) = None"
    and "ex_steady (snd (VitalSignsAgent_detect (ex_backend 200) a ex_frame (ex_face_md i)))"
proof -
  have pw: "processed_window a ex_frame (ex_face_md i) = Some [ex_frame, ex_frame]"
    using assms by (simp add: ex_steady_def due_def processed_window_def ex_face_roi
        deque_append_def)
  have pr: "process (ex_backend 200) (rppg_processor a) [ex_frame, ex_frame]
      = Some \<lparr>vs_heart_rate = 200, vs_respiratory_rate = 15, vs_signal_quality = 0.8,
           vs_hr_confidence = 0.9, vs_rr_confidence = 0.8\<rparr>"
    using assms ex_process[of "[ex_frame, ex_frame]" 200] by (simp add: ex_steady_def)
  have nv: "\<not> vitals_valid a \<lparr>vs_heart_rate = 200, vs_respiratory_rate = 15,
       vs_signal_quality = 0.8, vs_hr_confidence = 0.9, vs_rr_confidence = 0.8\<rparr>"
    using assms by (simp add: ex_steady_def vitals_valid_def)
  have d: "VitalSignsAgent_detect (ex_backend 200) a ex_frame (ex_face_md i)
      = (None, processed_agent a [ex_frame, ex_frame])"
    using nv by (simp add: detect_processed[OF pw] pr)
  show "fst (VitalSignsAgent_detect (ex_backend 200) a ex_frame (ex_face_md i)) = None"
    by (simp add: d)
  show "ex_steady (snd (VitalSignsAgent_detect (ex_backend 200) a ex_frame (ex_face_md i)))"
    using assms by (simp add: d ex_steady_def due_def processed_agent_def)
qed

lemma ex_first_discard:
  "VitalSignsAgent_detect (ex_backend 200) ex_vital_agent ex_frame (ex_face_md 2)
   = (None, processed_agent ex_vital_agent [ex_frame, ex_frame])"
  "ex_steady (processed_agent ex_vital_agent [ex_frame, ex_frame])"
proof -
  have nv: "\<not> vitals_valid ex_vital_agent \<lparr>vs_heart_rate = 200, vs_respiratory_rate = 15,
       vs_signal_quality = 0.8, vs_hr_confidence = 0.9, vs_rr_confidence = 0.8\<rparr>"
    by (simp add: vitals_valid_def ex_vital_fields)
  show "VitalSignsAgent_detect (ex_backend 200) ex_vital_agent ex_frame (ex_face_md 2)
   = (None, processed_agent ex_vital_agent [ex_frame, ex_frame])"
    using nv by (simp add: detect_processed[OF ex_window] ex_vital_fields ex_process)
  show "ex_steady (processed_agent ex_vital_agent [ex_frame, ex_frame])"
    by (simp add: ex_steady_def due_def processed_agent_def ex_vital_fields)
qed

text \<open>
  With a heart rate of 200 reported, the window is discarded on frame 2 and the
  processor runs again on frames 3 and 4, one frame apart.
\<close>

theorem vital_signs_discard_reprocesses_witness:
  "processed_window ex_vital_agent ex_frame (ex_face_md 2) \<noteq> None
   \<and> VitalSignsAgent_detect (ex_backend 200) ex_vital_agent ex_frame (ex_face_md 2)
       = (None, processed_agent ex_vital_agent [ex_frame, ex_frame])
   \<and> last_update_frame (processed_agent ex_vital_agent [ex_frame, ex_frame])
       = last_update_frame ex_vital_agent
   \<and> rppg_calls (processed_agent ex_vital_agent [ex_frame, ex_frame]) = 1
   \<and> rppg_calls (snd (vital_signs_run (ex_backend 200)
                         (processed_agent ex_vital_agent [ex_frame, ex_frame])
                         [(ex_frame, ex_face_md 3), (ex_frame, ex_face_md 4)])) = 3"
proof -
  let ?a1 = "processed_agent ex_vital_agent [ex_frame, ex_frame]"
  let ?rest = "[(ex_frame, ex_face_md 3), (ex_frame, ex_face_md 4)]"
  have rois: "\<forall>(fr', md')\<in>set ?rest. face_roi_of fr' md' \<noteq> None"
    by (simp add: ex_face_roi)
  have "fst (VitalSignsAgent_detect (ex_backend 200) ?a1 ex_frame (ex_face_md 3)) = None"
    by (rule ex_steady_step(1)[OF ex_first_discard(2)])
  then have quiet: "\<forall>out\<in>set (butlast (fst (vital_signs_run (ex_backend 200) ?a1 ?rest))).
      out = None"
    by (auto split: prod.splits)
  have c1: "rppg_calls ?a1 = 1"
    by (simp add: processed_agent_def ex_vital_fields)
  show ?thesis
    using vital_signs_discard_reprocesses[of "ex_backend 200" ex_vital_agent ex_frame
        "ex_face_md 2" ?rest] rois quiet c1
    by (simp add: ex_first_discard(1) ex_window)
qed

section \<open>Disabled agents\<close>

text \<open>
  Claim C10. For each of the five agents, a detect call on a disabled agent returns
  no event and the agent as it was (frame counter, buffers, timers and discrete state
  included), without reading the clock, whatever the frame and the metadata; and
  \<open>disable\<close> makes an agent disabled.
\<close>

theorem disabled_agent_detect_is_noop:
  "(\<not> enabled fa \<longrightarrow> FallDetectionAgent_detect env fa w fr md = Inr (None, fa, w))
   \<and> (\<not> enabled sa \<longrightarrow> SeizureDetectionAgent_detect env sa w fr md = Inr (None, sa, w))
   \<and> (\<not> enabled va \<longrightarrow> VitalSignsAgent_detect be va fr md = (None, va))
   \<and> (\<not> enabled ba \<longrightarrow> BedExitAgent_detect env ba w fr md = Inr (None, ba, w))
   \<and> (\<not> enabled ia \<longrightarrow> ImmobilityAgent_detect env ia w fr md = Inr (None, ia, w))
   \<and> \<not> enabled (disable fa) \<and> \<not> enabled (disable sa) \<and> \<not> enabled (disable va)
   \<and> \<not> enabled (disable ba) \<and> \<not> enabled (disable ia)"
  by (simp add: FallDetectionAgent_detect_def SeizureDetectionAgent_detect_def
      VitalSignsAgent_detect_def BedExitAgent_detect_def ImmobilityAgent_detect_def disable_def)

text \<open>The five agents of the concrete runs above, disabled.\<close>

theorem disabled_agent_detect_is_noop_witness:
  "FallDetectionAgent_detect ex_world (disable ex_fall_agent) 0 ex_frame ex_lying_md
     = Inr (None, disable ex_fall_agent, 0)
   \<and> SeizureDetectionAgent_detect ex_world (disable ex_after_jerk) 3 ex_frame ex_held
     = Inr (None, disable ex_after_jerk, 3)
   \<and> VitalSignsAgent_detect (ex_backend 72) (disable ex_vital_agent) ex_frame (ex_face_md 2)
     = (None, disable ex_vital_agent)
   \<and> BedExitAgent_detect ex_world (disable ex_bed_agent) 1 ex_frame (ex_away_md 1)
     = Inr (None, disable ex_bed_agent, 1)
   \<and> ImmobilityAgent_detect ex_world (disable ex_immobility_agent) 2 ex_frame ex_lying_md
     = Inr (None, disable ex_immobility_agent, 2)"
proof -
  have "\<not> enabled (disable ex_fall_agent)" "\<not> enabled (disable ex_after_jerk)"
    "\<not> enabled (disable ex_vital_agent)" "\<not> enabled (disable ex_bed_agent)"
    "\<not> enabled (disable ex_immobility_agent)"
    by (simp_all add: disable_def)
  then show ?thesis
    using disabled_agent_detect_is_noop[where fa = "disable ex_fall_agent" and env = ex_world
        and w = 0 and fr = ex_frame and md = ex_lying_md]
      disabled_agent_detect_is_noop[where sa = "disable ex_after_jerk" and env = ex_world
        and w = 3 and fr = ex_frame and md = ex_held]
      disabled_agent_detect_is_noop[where va = "disable ex_vital_agent" and be = "ex_backend 72"
        and fr = ex_frame and md = "ex_face_md 2"]
      disabled_agent_detect_is_noop[where ba = "disable ex_bed_agent" and env = ex_world
        and w = 1 and fr = ex_frame and md = "ex_away_md 1"]
      disabled_agent_detect_is_noop[where ia = "disable ex_immobility_agent" and env = ex_world
        and w = 2 and fr = ex_frame and md = ex_lying_md]
    by simp
qed

end
